theory Spec2Isabelle
  imports Main
begin

section \<open>Values, errors, console and the storage engine's interface\<close>

text \<open>
  A JavaScript value: \<open>undefined\<close>, \<open>null\<close>, or a value proper. Keys and stored values
  are opaque (\<open>any\<close> in the source), so they are a type parameter. A database handle is a
  value of this kind too: \<open>!database\<close> holds for \<open>undefined\<close> and for \<open>null\<close>, while
  \<open>database === null\<close> holds for \<open>null\<close> only.
\<close>

datatype 'v js = Undefined | Null | Defined 'v

text \<open>
  A thrown error object. The source reads and compares only \<open>err.name\<close>; the rest of the
  object is represented by its \<open>message\<close>.
\<close>

record Error =
  name :: string
  message :: string

text \<open>Calls to \<open>console.log\<close>, \<open>console.warn\<close> and \<open>console.error\<close>, with their arguments.\<close>

datatype console_arg = Str string | Err Error

datatype console_call =
    console_log "console_arg list"
  | console_warn "console_arg list"
  | console_error "console_arg list"

text \<open>Opaque handles of the storage engine (IndexedDB).\<close>

datatype IDBDatabase = IDBDatabase nat
datatype IDBTransaction = IDBTransaction nat
datatype IDBObjectStore = IDBObjectStore nat
datatype IDBIndex = IDBIndex nat
datatype IDBRequest = IDBRequest nat

datatype IDBTransactionMode = readonly | readwrite
datatype IDBCursorDirection = cursor_next | cursor_prev

text \<open>Every call the layer can make on the engine, with its arguments.\<close>

datatype 'v engine_call =
    call_transaction IDBDatabase string IDBTransactionMode
  | call_objectStore IDBTransaction string
  | call_get IDBObjectStore "'v js"
  | call_index IDBObjectStore string
  | call_openCursor IDBIndex IDBCursorDirection
  | call_add IDBObjectStore "'v js" "'v js"
  | call_put IDBObjectStore "'v js" "'v js"
  | call_delete IDBObjectStore "'v js"
  | call_contains IDBDatabase string
  | call_createObjectStore IDBDatabase string string
  | call_createIndex IDBObjectStore string string bool
  | call_deleteObjectStore IDBDatabase string
  | call_deleteDatabase "string js"

text \<open>
  The world a call runs in: what has been written to the console, the engine calls made so
  far (in order), and the engine's own state.
\<close>

record ('v, 's) world =
  console :: "console_call list"
  calls :: "'v engine_call list"
  engine :: 's

text \<open>
  A computation either throws (\<open>Inl\<close>) or returns (\<open>Inr\<close>), and leaves a new world.
\<close>

type_synonym ('a, 'v, 's) computation = "('v, 's) world \<Rightarrow> (Error + 'a) \<times> ('v, 's) world"

definition ret :: "'a \<Rightarrow> ('a, 'v, 's) computation" where
  "ret a w = (Inr a, w)"

definition and_then ::
  "('a, 'v, 's) computation \<Rightarrow> ('a \<Rightarrow> ('b, 'v, 's) computation) \<Rightarrow> ('b, 'v, 's) computation" where
  "and_then m f w = (case m w of (Inl err, w') \<Rightarrow> (Inl err, w') | (Inr a, w') \<Rightarrow> f a w')"

text \<open>
  \<open>try { m } catch (err) { h err }\<close> for a handler that itself cannot throw: the result is
  no longer a sum.
\<close>

definition try_catch ::
  "('a, 'v, 's) computation \<Rightarrow> (Error \<Rightarrow> ('v, 's) world \<Rightarrow> 'a \<times> ('v, 's) world) \<Rightarrow>
   ('v, 's) world \<Rightarrow> 'a \<times> ('v, 's) world" where
  "try_catch m h w = (case m w of (Inl err, w') \<Rightarrow> h err w' | (Inr a, w') \<Rightarrow> (a, w'))"

definition write_console :: "console_call \<Rightarrow> ('v, 's) world \<Rightarrow> ('v, 's) world" where
  "write_console c w = w\<lparr>console := console w @ [c]\<rparr>"

section \<open>Error boundary (Error/indexedDB.ts)\<close>

datatype ErrorName = transactionError | objectStoreError | createError | indexError | openCursorError

fun errorNameEnum :: "ErrorName \<Rightarrow> string" where
  "errorNameEnum transactionError = ''transactionError''"
| "errorNameEnum objectStoreError = ''objectStoreError''"
| "errorNameEnum createError = ''createError''"
| "errorNameEnum indexError = ''indexError''"
| "errorNameEnum openCursorError = ''openCursorError''"

text \<open>
  The text that follows \<open>${err.name}\<close> in the template literal of every branch of
  \<open>errorCase\<close> (a blank and a Korean phrase meaning "has occurred"), as its UTF-8 bytes.
\<close>

definition occurred :: string where
  "occurred = [CHR 0x20, CHR 0xEC, CHR 0x9D, CHR 0xB4, CHR 0x20, CHR 0xEB, CHR 0xB0, CHR 0x9C,
     CHR 0xEC, CHR 0x83, CHR 0x9D, CHR 0xED, CHR 0x96, CHR 0x88, CHR 0xEC, CHR 0x8A, CHR 0xB5,
     CHR 0xEB, CHR 0x8B, CHR 0x88, CHR 0xEB, CHR 0x8B, CHR 0xA4]"

text \<open>
  \<open>errorCase\<close>: five independent \<open>if\<close> statements on \<open>err.name\<close>, each calling
  \<open>console.error\<close>, then an unconditional \<open>throw err\<close>.
\<close>

definition errorCase :: "Error \<Rightarrow> ('a, 'v, 's) computation" where
  "errorCase err w0 =
    (let w1 = (if name err = ''transactionError''
               then write_console (console_error [Str (name err @ occurred), Err err]) w0 else w0);
         w2 = (if name err = ''objectStoreError''
               then write_console (console_error [Str (name err @ occurred), Err err]) w1 else w1);
         w3 = (if name err = ''createError''
               then write_console (console_error [Str (name err @ occurred), Err err]) w2 else w2);
         w4 = (if name err = ''indexError''
               then write_console (console_error [Str (name err @ occurred), Err err]) w3 else w3);
         w5 = (if name err = ''openCursorError''
               then write_console (console_error [Str (name err @ occurred), Err err]) w4 else w4)
     in (Inl err, w5))"

text \<open>
  Modelled from the spec: \<open>customErrHandlerGenerator\<close> is imported from the module
  \<open>Error\<close>, which is not among the sources. The spec calls it the classifier: it takes a
  failure name and an action, invokes the action, on success returns the produced value
  unchanged, and on failure attaches the failure name to the error object and re-throws.
\<close>

definition customErrHandlerGenerator ::
  "string \<Rightarrow> ('a, 'v, 's) computation \<Rightarrow> ('a, 'v, 's) computation" where
  "customErrHandlerGenerator errorName callback w =
    (case callback w of
       (Inl err, w') \<Rightarrow> (Inl (err\<lparr>name := errorName\<rparr>), w')
     | (Inr a, w') \<Rightarrow> (Inr a, w'))"

text \<open>
  Modelled from the spec: \<open>customErrorBoundaryGenerator\<close> is imported from the module
  \<open>Error\<close>, which is not among the sources. The spec calls its result the boundary: given
  a tagged error, it runs the reporting policy (here \<open>errorCase\<close>), which re-throws the same
  error; composed with a classifier it yields a handler that runs an action and returns its
  result when the action does not throw.
\<close>

definition customErrorBoundaryGenerator ::
  "(Error \<Rightarrow> ('a, 'v, 's) computation) \<Rightarrow>
   (('a, 'v, 's) computation \<Rightarrow> ('a, 'v, 's) computation) \<Rightarrow>
   ('a, 'v, 's) computation \<Rightarrow> ('a, 'v, 's) computation" where
  "customErrorBoundaryGenerator errCase handler callback w =
    (case handler callback w of
       (Inl err, w') \<Rightarrow> errCase err w'
     | (Inr a, w') \<Rightarrow> (Inr a, w'))"

definition customErrorBoundary ::
  "(('a, 'v, 's) computation \<Rightarrow> ('a, 'v, 's) computation) \<Rightarrow>
   ('a, 'v, 's) computation \<Rightarrow> ('a, 'v, 's) computation" where
  "customErrorBoundary = customErrorBoundaryGenerator errorCase"

definition errorHandlerGenerator ::
  "ErrorName \<Rightarrow> ('a, 'v, 's) computation \<Rightarrow> ('a, 'v, 's) computation" where
  "errorHandlerGenerator errorName =
     customErrorBoundary (customErrHandlerGenerator (errorNameEnum errorName))"

definition handleTransactionErr :: "('a, 'v, 's) computation \<Rightarrow> ('a, 'v, 's) computation" where
  "handleTransactionErr = errorHandlerGenerator transactionError"

definition handleObjectStoreErr :: "('a, 'v, 's) computation \<Rightarrow> ('a, 'v, 's) computation" where
  "handleObjectStoreErr = errorHandlerGenerator objectStoreError"

definition handleCreateErr :: "('a, 'v, 's) computation \<Rightarrow> ('a, 'v, 's) computation" where
  "handleCreateErr = errorHandlerGenerator createError"

definition handleIndexErr :: "('a, 'v, 's) computation \<Rightarrow> ('a, 'v, 's) computation" where
  "handleIndexErr = errorHandlerGenerator indexError"

definition handleOpenCursorErr :: "('a, 'v, 's) computation \<Rightarrow> ('a, 'v, 's) computation" where
  "handleOpenCursorErr = errorHandlerGenerator openCursorError"

section \<open>The engine as the layer uses it\<close>

text \<open>
  The storage engine is external. Each of its methods is a parameter: given the arguments and
  the engine's state it either throws or returns a handle, and leaves a new state.
  \<open>objectStoreNames.contains\<close> is a query and never throws.
\<close>

record ('v, 's) IDBEngine =
  IDBDatabase_transaction ::
    "IDBDatabase \<Rightarrow> string \<Rightarrow> IDBTransactionMode \<Rightarrow> 's \<Rightarrow> (Error + IDBTransaction) \<times> 's"
  IDBTransaction_objectStore :: "IDBTransaction \<Rightarrow> string \<Rightarrow> 's \<Rightarrow> (Error + IDBObjectStore) \<times> 's"
  IDBObjectStore_get :: "IDBObjectStore \<Rightarrow> 'v js \<Rightarrow> 's \<Rightarrow> (Error + IDBRequest) \<times> 's"
  IDBObjectStore_index :: "IDBObjectStore \<Rightarrow> string \<Rightarrow> 's \<Rightarrow> (Error + IDBIndex) \<times> 's"
  IDBIndex_openCursor :: "IDBIndex \<Rightarrow> IDBCursorDirection \<Rightarrow> 's \<Rightarrow> (Error + IDBRequest) \<times> 's"
  IDBObjectStore_add :: "IDBObjectStore \<Rightarrow> 'v js \<Rightarrow> 'v js \<Rightarrow> 's \<Rightarrow> (Error + IDBRequest) \<times> 's"
  IDBObjectStore_put :: "IDBObjectStore \<Rightarrow> 'v js \<Rightarrow> 'v js \<Rightarrow> 's \<Rightarrow> (Error + IDBRequest) \<times> 's"
  IDBObjectStore_delete :: "IDBObjectStore \<Rightarrow> 'v js \<Rightarrow> 's \<Rightarrow> (Error + IDBRequest) \<times> 's"
  objectStoreNames_contains :: "IDBDatabase \<Rightarrow> string \<Rightarrow> 's \<Rightarrow> bool"
  IDBDatabase_createObjectStore ::
    "IDBDatabase \<Rightarrow> string \<Rightarrow> string \<Rightarrow> 's \<Rightarrow> (Error + IDBObjectStore) \<times> 's"
  IDBObjectStore_createIndex ::
    "IDBObjectStore \<Rightarrow> string \<Rightarrow> string \<Rightarrow> bool \<Rightarrow> 's \<Rightarrow> (Error + IDBIndex) \<times> 's"
  IDBDatabase_deleteObjectStore :: "IDBDatabase \<Rightarrow> string \<Rightarrow> 's \<Rightarrow> (Error + unit) \<times> 's"
  indexedDB_deleteDatabase :: "string js \<Rightarrow> 's \<Rightarrow> (Error + IDBRequest) \<times> 's"

text \<open>A method call: it is appended to the record of calls and run on the engine's state.\<close>

definition invoke :: "'v engine_call \<Rightarrow> ('s \<Rightarrow> (Error + 'a) \<times> 's) \<Rightarrow> ('a, 'v, 's) computation" where
  "invoke c f w = (case f (engine w) of (r, s') \<Rightarrow> (r, w\<lparr>calls := calls w @ [c], engine := s'\<rparr>))"

definition db_transaction ::
  "('v, 's) IDBEngine \<Rightarrow> IDBDatabase \<Rightarrow> string \<Rightarrow> IDBTransactionMode \<Rightarrow>
   (IDBTransaction, 'v, 's) computation" where
  "db_transaction eng db tableName mode =
     invoke (call_transaction db tableName mode) (IDBDatabase_transaction eng db tableName mode)"

definition tx_objectStore ::
  "('v, 's) IDBEngine \<Rightarrow> IDBTransaction \<Rightarrow> string \<Rightarrow> (IDBObjectStore, 'v, 's) computation" where
  "tx_objectStore eng transaction tableName =
     invoke (call_objectStore transaction tableName) (IDBTransaction_objectStore eng transaction tableName)"

definition table_get ::
  "('v, 's) IDBEngine \<Rightarrow> IDBObjectStore \<Rightarrow> 'v js \<Rightarrow> (IDBRequest, 'v, 's) computation" where
  "table_get eng table key = invoke (call_get table key) (IDBObjectStore_get eng table key)"

definition table_index ::
  "('v, 's) IDBEngine \<Rightarrow> IDBObjectStore \<Rightarrow> string \<Rightarrow> (IDBIndex, 'v, 's) computation" where
  "table_index eng table indexing =
     invoke (call_index table indexing) (IDBObjectStore_index eng table indexing)"

definition index_openCursor ::
  "('v, 's) IDBEngine \<Rightarrow> IDBIndex \<Rightarrow> IDBCursorDirection \<Rightarrow> (IDBRequest, 'v, 's) computation" where
  "index_openCursor eng index direction =
     invoke (call_openCursor index direction) (IDBIndex_openCursor eng index direction)"

definition table_add ::
  "('v, 's) IDBEngine \<Rightarrow> IDBObjectStore \<Rightarrow> 'v js \<Rightarrow> 'v js \<Rightarrow> (IDBRequest, 'v, 's) computation" where
  "table_add eng table val key = invoke (call_add table val key) (IDBObjectStore_add eng table val key)"

definition table_put ::
  "('v, 's) IDBEngine \<Rightarrow> IDBObjectStore \<Rightarrow> 'v js \<Rightarrow> 'v js \<Rightarrow> (IDBRequest, 'v, 's) computation" where
  "table_put eng table val key = invoke (call_put table val key) (IDBObjectStore_put eng table val key)"

definition table_delete ::
  "('v, 's) IDBEngine \<Rightarrow> IDBObjectStore \<Rightarrow> 'v js \<Rightarrow> (IDBRequest, 'v, 's) computation" where
  "table_delete eng table key = invoke (call_delete table key) (IDBObjectStore_delete eng table key)"

definition names_contains ::
  "('v, 's) IDBEngine \<Rightarrow> IDBDatabase \<Rightarrow> string \<Rightarrow> (bool, 'v, 's) computation" where
  "names_contains eng db tableName =
     invoke (call_contains db tableName) (\<lambda>s. (Inr (objectStoreNames_contains eng db tableName s), s))"

definition db_createObjectStore ::
  "('v, 's) IDBEngine \<Rightarrow> IDBDatabase \<Rightarrow> string \<Rightarrow> string \<Rightarrow> (IDBObjectStore, 'v, 's) computation" where
  "db_createObjectStore eng db tableName keyPath =
     invoke (call_createObjectStore db tableName keyPath)
       (IDBDatabase_createObjectStore eng db tableName keyPath)"

definition store_createIndex ::
  "('v, 's) IDBEngine \<Rightarrow> IDBObjectStore \<Rightarrow> string \<Rightarrow> string \<Rightarrow> bool \<Rightarrow>
   (IDBIndex, 'v, 's) computation" where
  "store_createIndex eng store indexName keyPath unique =
     invoke (call_createIndex store indexName keyPath unique)
       (IDBObjectStore_createIndex eng store indexName keyPath unique)"

definition db_deleteObjectStore ::
  "('v, 's) IDBEngine \<Rightarrow> IDBDatabase \<Rightarrow> string \<Rightarrow> (unit, 'v, 's) computation" where
  "db_deleteObjectStore eng db tableName =
     invoke (call_deleteObjectStore db tableName) (IDBDatabase_deleteObjectStore eng db tableName)"

definition deleteDatabase ::
  "('v, 's) IDBEngine \<Rightarrow> string js \<Rightarrow> (IDBRequest, 'v, 's) computation" where
  "deleteDatabase eng dbName = invoke (call_deleteDatabase dbName) (indexedDB_deleteDatabase eng dbName)"

section \<open>Promises and request notifications\<close>

text \<open>
  What a promise is rejected with: the object \<open>{ reason, err }\<close>, or an error object.
\<close>

datatype rejection = Envelope string Error | Plain Error

datatype 'v promise = Pending | Resolved "'v js" | Rejected rejection

text \<open>A promise settles once; later calls of \<open>resolve\<close> and \<open>reject\<close> do nothing.\<close>

definition resolve :: "'v js \<Rightarrow> 'v promise \<Rightarrow> 'v promise" where
  "resolve v p = (case p of Pending \<Rightarrow> Resolved v | _ \<Rightarrow> p)"

definition reject :: "rejection \<Rightarrow> 'v promise \<Rightarrow> 'v promise" where
  "reject r p = (case p of Pending \<Rightarrow> Rejected r | _ \<Rightarrow> p)"

text \<open>
  A request on which the layer has assigned \<open>onsuccess\<close> and \<open>onerror\<close>. The handlers act on
  \<open>'x\<close>: the promise and the world for the reads, the world for the writes. \<open>'r\<close> is the type
  of \<open>request.result\<close>.
\<close>

record ('r, 'x) listeners =
  target :: IDBRequest
  onsuccess :: "'r \<Rightarrow> 'x \<Rightarrow> 'x"
  onerror :: "Error \<Rightarrow> 'x \<Rightarrow> 'x"

text \<open>
  The engine settles a request by firing one of its two channels: success, with
  \<open>request.result\<close>, or error, with \<open>request.error\<close>.
\<close>

datatype 'r notification = Success 'r | Failure Error

fun deliver :: "('r, 'x) listeners \<Rightarrow> 'r notification \<Rightarrow> 'x \<Rightarrow> 'x" where
  "deliver l (Success result) x = onsuccess l result x"
| "deliver l (Failure error) x = onerror l error x"

fun deliver_all :: "('r, 'x) listeners \<Rightarrow> 'r notification list \<Rightarrow> 'x \<Rightarrow> 'x" where
  "deliver_all l [] x = x"
| "deliver_all l (n # ns) x = deliver_all l ns (deliver l n x)"

text \<open>\<open>cursor.result\<close> is \<open>null\<close> or a cursor positioned on a record with a \<open>value\<close>.\<close>

datatype 'v IDBCursorWithValue = IDBCursorWithValue (cursor_value: "'v js")

text \<open>An optional caller-supplied callback, and \<open>cb && cb()\<close>.\<close>

type_synonym ('v, 's) callback = "(('v, 's) world \<Rightarrow> ('v, 's) world) option"

definition call_if_supplied :: "('v, 's) callback \<Rightarrow> ('v, 's) world \<Rightarrow> ('v, 's) world" where
  "call_if_supplied cb w = (case cb of None \<Rightarrow> w | Some f \<Rightarrow> f w)"

section \<open>Storage access layer (useIndexedDB)\<close>



text \<open>
  \<open>createTable(tableName, db = database)\<close>: the default applies when the argument is
  \<open>undefined\<close>, that is when the caller omits it; an explicit \<open>null\<close> stays \<open>null\<close>. The
  guard \<open>!db\<close> is on the parameter.
\<close>

definition createTable ::
  "('v, 's) IDBEngine \<Rightarrow> string \<Rightarrow> IDBDatabase js \<Rightarrow> string \<Rightarrow> IDBDatabase js \<Rightarrow>
   (IDBObjectStore option, 'v, 's) computation" where
  "createTable eng indexing_memo database tableName db_arg w =
    (let db = (case db_arg of Undefined \<Rightarrow> database | _ \<Rightarrow> db_arg) in
     case db of
       Undefined \<Rightarrow> (Inr None, write_console (console_error [Str ''no database'']) w)
     | Null \<Rightarrow> (Inr None, write_console (console_error [Str ''no database'']) w)
     | Defined h \<Rightarrow>
         and_then (names_contains eng h tableName) (\<lambda>present.
           if \<not> present then
             and_then (db_createObjectStore eng h tableName indexing_memo) (\<lambda>store.
             and_then (store_createIndex eng store indexing_memo indexing_memo True) (\<lambda>_.
             ret (Some store)))
           else ret None) w)"

text \<open>
  \<open>deleteTable\<close> guards with \<open>database === null\<close>. An \<open>undefined\<close> handle passes the
  guard, and \<open>database.deleteObjectStore\<close> then reads a property of \<open>undefined\<close>: a
  \<open>TypeError\<close>, thrown to the caller.
\<close>

definition deleteTable ::
  "('v, 's) IDBEngine \<Rightarrow> IDBDatabase js \<Rightarrow> string \<Rightarrow> (unit, 'v, 's) computation" where
  "deleteTable eng database tableName w =
    (case database of
       Null \<Rightarrow> (Inr (), write_console (console_error [Str ''no database'']) w)
     | Undefined \<Rightarrow>
         (Inl \<lparr>name = ''TypeError'', message = ''Cannot read properties of undefined''\<rparr>, w)
     | Defined db \<Rightarrow> db_deleteObjectStore eng db tableName w)"

subsection \<open>getValue\<close>

text \<open>
  The read handlers act on the promise and leave the world as it is.
\<close>

definition getValue_onsuccess ::
  "'v js \<Rightarrow> 'v promise \<times> ('v, 's) world \<Rightarrow> 'v promise \<times> ('v, 's) world" where
  "getValue_onsuccess result x = (case x of (p, w) \<Rightarrow> (resolve result p, w))"

definition getValue_onerror ::
  "Error \<Rightarrow> 'v promise \<times> ('v, 's) world \<Rightarrow> 'v promise \<times> ('v, 's) world" where
  "getValue_onerror error x = (case x of (p, w) \<Rightarrow> (reject (Plain error) p, w))"

text \<open>
  The body of the \<open>try\<close> block of the promise's executor. It yields the state of the promise
  and the request whose handlers it has assigned, if any. The guard \<open>!database\<close> sends both
  \<open>undefined\<close> and \<open>null\<close> to the early \<open>resolve(undefined)\<close>. The optional chaining in
  \<open>database?.transaction\<close> and \<open>transaction?.objectStore\<close> has no effect: both receivers are
  handles at that point.
\<close>

definition getValue_try ::
  "('v, 's) IDBEngine \<Rightarrow> IDBDatabase js \<Rightarrow> string \<Rightarrow> 'v js \<Rightarrow>
   ('v promise \<times> ('v js, 'v promise \<times> ('v, 's) world) listeners option, 'v, 's) computation" where
  "getValue_try eng database tableName key =
    (case database of
       Undefined \<Rightarrow> ret (resolve Undefined Pending, None)
     | Null \<Rightarrow> ret (resolve Undefined Pending, None)
     | Defined db \<Rightarrow>
         and_then (handleTransactionErr (db_transaction eng db tableName readonly)) (\<lambda>transaction.
         and_then (handleObjectStoreErr (tx_objectStore eng transaction tableName)) (\<lambda>table.
         and_then (table_get eng table key) (\<lambda>request.
         ret (Pending,
              Some \<lparr>target = request, onsuccess = getValue_onsuccess, onerror = getValue_onerror\<rparr>)))))"

text \<open>
  \<open>getValue({ tableName, indexing, key })\<close>. The promise is still pending when the
  \<open>catch\<close> block runs: the only call of \<open>resolve\<close> in the \<open>try\<close> block is followed by
  \<open>return\<close>.
\<close>

definition getValue ::
  "('v, 's) IDBEngine \<Rightarrow> IDBDatabase js \<Rightarrow> string \<Rightarrow> string js \<Rightarrow> 'v js \<Rightarrow> ('v, 's) world \<Rightarrow>
   ('v promise \<times> ('v js, 'v promise \<times> ('v, 's) world) listeners option) \<times> ('v, 's) world" where
  "getValue eng database tableName indexing key =
     try_catch (getValue_try eng database tableName key)
       (\<lambda>err w. ((reject (Envelope ''uncaught error'' err) Pending, None), w))"

subsection \<open>getLastValueFromTable\<close>

definition getLastValueFromTable_onsuccess ::
  "'v IDBCursorWithValue option \<Rightarrow> 'v promise \<times> ('v, 's) world \<Rightarrow> 'v promise \<times> ('v, 's) world" where
  "getLastValueFromTable_onsuccess result x =
    (case x of (p, w) \<Rightarrow>
       (let val = (case result of None \<Rightarrow> Undefined | Some cursor \<Rightarrow> cursor_value cursor)
        in (resolve val p, w)))"

definition getLastValueFromTable_onerror ::
  "Error \<Rightarrow> 'v promise \<times> ('v, 's) world \<Rightarrow> 'v promise \<times> ('v, 's) world" where
  "getLastValueFromTable_onerror e x =
    (case x of (p, w) \<Rightarrow>
       (reject (Plain \<lparr>name = ''Error'',
                       message = ''Failed to retrieve last value from object store''\<rparr>) p, w))"

text \<open>
  The action given to \<open>handleOpenCursorErr\<close> opens the cursor and assigns its handlers; the
  model returns the request with the handlers (the source's action returns nothing and its
  result \<open>getValueByCursor\<close> is not used).
\<close>

definition getLastValueFromTable_try ::
  "('v, 's) IDBEngine \<Rightarrow> IDBDatabase js \<Rightarrow> string \<Rightarrow> string \<Rightarrow>
   ('v promise \<times> ('v IDBCursorWithValue option, 'v promise \<times> ('v, 's) world) listeners option,
    'v, 's) computation" where
  "getLastValueFromTable_try eng database tableName indexing =
    (case database of
       Undefined \<Rightarrow> ret (resolve Undefined Pending, None)
     | Null \<Rightarrow> ret (resolve Undefined Pending, None)
     | Defined db \<Rightarrow>
         and_then (handleTransactionErr (db_transaction eng db tableName readonly)) (\<lambda>transaction.
         and_then (handleObjectStoreErr (tx_objectStore eng transaction tableName)) (\<lambda>table.
         and_then (handleIndexErr (table_index eng table indexing)) (\<lambda>index.
         and_then (handleOpenCursorErr
                     (and_then (index_openCursor eng index cursor_prev) (\<lambda>cursor.
                      ret \<lparr>target = cursor, onsuccess = getLastValueFromTable_onsuccess,
                           onerror = getLastValueFromTable_onerror\<rparr>))) (\<lambda>getValueByCursor.
         ret (Pending, Some getValueByCursor))))))"

definition getLastValueFromTable ::
  "('v, 's) IDBEngine \<Rightarrow> IDBDatabase js \<Rightarrow> string \<Rightarrow> string \<Rightarrow> ('v, 's) world \<Rightarrow>
   ('v promise \<times> ('v IDBCursorWithValue option, 'v promise \<times> ('v, 's) world) listeners option)
   \<times> ('v, 's) world" where
  "getLastValueFromTable eng database tableName indexing =
     try_catch (getLastValueFromTable_try eng database tableName indexing)
       (\<lambda>err w. ((reject (Envelope ''uncaught error'' err) Pending, None), w))"

subsection \<open>saveValue\<close>

datatype save_type = put | add

definition saveValue_onsuccess :: "('v, 's) callback \<Rightarrow> 'v js \<Rightarrow> ('v, 's) world \<Rightarrow> ('v, 's) world" where
  "saveValue_onsuccess onSuccess e w =
     call_if_supplied onSuccess (write_console (console_log [Str ''save success'']) w)"

definition saveValue_onerror :: "('v, 's) callback \<Rightarrow> Error \<Rightarrow> ('v, 's) world \<Rightarrow> ('v, 's) world" where
  "saveValue_onerror onError e w =
     call_if_supplied onError
       (write_console (console_error [Str ''no suffient space to save data'']) w)"

definition saveValue_try ::
  "('v, 's) IDBEngine \<Rightarrow> IDBDatabase \<Rightarrow> string \<Rightarrow> 'v js \<Rightarrow> 'v js \<Rightarrow> save_type \<Rightarrow>
   ('v, 's) callback \<Rightarrow> ('v, 's) callback \<Rightarrow>
   (('v js, ('v, 's) world) listeners option, 'v, 's) computation" where
  "saveValue_try eng database tableName key val type onSuccess onError =
     and_then (handleTransactionErr (db_transaction eng database tableName readwrite)) (\<lambda>transaction.
     and_then (handleObjectStoreErr (tx_objectStore eng transaction tableName)) (\<lambda>table.
     and_then (handleCreateErr
                 (if type = add then table_add eng table val key else table_put eng table val key))
       (\<lambda>request.
     ret (Some \<lparr>target = request, onsuccess = saveValue_onsuccess onSuccess,
                 onerror = saveValue_onerror onError\<rparr>))))"

text \<open>
  \<open>saveValue({ tableName, key, value, type, onSuccess, onError })\<close> returns nothing; the
  model returns the request whose handlers it has assigned, if any. The handlers ignore
  their event and the request's result.
\<close>

definition saveValue ::
  "('v, 's) IDBEngine \<Rightarrow> IDBDatabase js \<Rightarrow> string \<Rightarrow> 'v js \<Rightarrow> 'v js \<Rightarrow> save_type \<Rightarrow>
   ('v, 's) callback \<Rightarrow> ('v, 's) callback \<Rightarrow> ('v, 's) world \<Rightarrow>
   ('v js, ('v, 's) world) listeners option \<times> ('v, 's) world" where
  "saveValue eng database tableName key val type onSuccess onError w =
    (case database of
       Undefined \<Rightarrow> (None, write_console (console_error [Str ''no database'']) w)
     | Null \<Rightarrow> (None, write_console (console_error [Str ''no database'']) w)
     | Defined db \<Rightarrow>
         try_catch (saveValue_try eng db tableName key val type onSuccess onError)
           (\<lambda>err w'. (None, write_console (console_log [Str ''uncaught error'', Err err]) w')) w)"

subsection \<open>deleteValue\<close>

definition deleteValue_onsuccess :: "('v, 's) callback \<Rightarrow> 'v js \<Rightarrow> ('v, 's) world \<Rightarrow> ('v, 's) world" where
  "deleteValue_onsuccess onSuccess e w = call_if_supplied onSuccess w"

definition deleteValue_onerror :: "('v, 's) callback \<Rightarrow> Error \<Rightarrow> ('v, 's) world \<Rightarrow> ('v, 's) world" where
  "deleteValue_onerror onError e w = call_if_supplied onError w"

definition deleteValue_try ::
  "('v, 's) IDBEngine \<Rightarrow> IDBDatabase \<Rightarrow> string \<Rightarrow> 'v js \<Rightarrow> ('v, 's) callback \<Rightarrow> ('v, 's) callback \<Rightarrow>
   (('v js, ('v, 's) world) listeners option, 'v, 's) computation" where
  "deleteValue_try eng database tableName key onSuccess onError =
     and_then (handleTransactionErr (db_transaction eng database tableName readwrite)) (\<lambda>transaction.
     and_then (handleObjectStoreErr (tx_objectStore eng transaction tableName)) (\<lambda>table.
     and_then (table_delete eng table key) (\<lambda>request.
     ret (Some \<lparr>target = request, onsuccess = deleteValue_onsuccess onSuccess,
                 onerror = deleteValue_onerror onError\<rparr>))))"

definition deleteValue ::
  "('v, 's) IDBEngine \<Rightarrow> IDBDatabase js \<Rightarrow> string \<Rightarrow> 'v js \<Rightarrow>
   ('v, 's) callback \<Rightarrow> ('v, 's) callback \<Rightarrow> ('v, 's) world \<Rightarrow>
   ('v js, ('v, 's) world) listeners option \<times> ('v, 's) world" where
  "deleteValue eng database tableName key onSuccess onError w =
    (case database of
       Undefined \<Rightarrow> (None, write_console (console_error [Str ''no database'']) w)
     | Null \<Rightarrow> (None, write_console (console_error [Str ''no database'']) w)
     | Defined db \<Rightarrow>
         try_catch (deleteValue_try eng db tableName key onSuccess onError)
           (\<lambda>err w'. (None, write_console (console_log [Str ''uncaught error'', Err err]) w')) w)"

section \<open>Notions used in the statements\<close>

text \<open>The five exported stage handlers, each with the name it is generated for.\<close>

definition stage_handlers ::
  "((('a, 'v, 's) computation \<Rightarrow> ('a, 'v, 's) computation) \<times> ErrorName) set" where
  "stage_handlers =
     {(handleTransactionErr, transactionError), (handleObjectStoreErr, objectStoreError),
      (handleCreateErr, createError), (handleIndexErr, indexError),
      (handleOpenCursorErr, openCursorError)}"

text \<open>
  What the engine promises about its schema, as far as \<open>createTable\<close> relies on it: a store
  that \<open>createObjectStore\<close> has created is listed in \<open>objectStoreNames\<close>, and
  \<open>createIndex\<close> leaves that list alone.
\<close>

definition schema_contract :: "('v, 's) IDBEngine \<Rightarrow> bool" where
  "schema_contract eng \<longleftrightarrow>
     (\<forall>db tableName keyPath s store s'.
        IDBDatabase_createObjectStore eng db tableName keyPath s = (Inr store, s') \<longrightarrow>
        objectStoreNames_contains eng db tableName s') \<and>
     (\<forall>store indexName keyPath unique s r s' db tableName.
        IDBObjectStore_createIndex eng store indexName keyPath unique s = (r, s') \<longrightarrow>
        objectStoreNames_contains eng db tableName s' = objectStoreNames_contains eng db tableName s)"

text \<open>
  A small engine for concrete runs. Its state is the list of object store names of its one
  database. A transaction on a missing store throws; only the index \<open>''id''\<close> exists;
  \<open>add\<close> and \<open>put\<close> throw when a key is passed (the stores use in-line keys); \<open>delete\<close>
  throws when no key is passed; \<open>createObjectStore\<close> throws on an existing name.
\<close>

definition engine_error :: "string \<Rightarrow> Error" where
  "engine_error n = \<lparr>name = n, message = ''raised by the engine''\<rparr>"

definition memory_engine :: "(nat, string list) IDBEngine" where
  "memory_engine =
    \<lparr>IDBDatabase_transaction = (\<lambda>db tableName mode s.
        if tableName \<in> set s then (Inr (IDBTransaction 1), s)
        else (Inl (engine_error ''NotFoundError''), s)),
     IDBTransaction_objectStore = (\<lambda>transaction tableName s. (Inr (IDBObjectStore 2), s)),
     IDBObjectStore_get = (\<lambda>table key s. (Inr (IDBRequest 3), s)),
     IDBObjectStore_index = (\<lambda>table indexing s.
        if indexing = ''id'' then (Inr (IDBIndex 4), s)
        else (Inl (engine_error ''NotFoundError''), s)),
     IDBIndex_openCursor = (\<lambda>index direction s. (Inr (IDBRequest 5), s)),
     IDBObjectStore_add = (\<lambda>table val key s.
        if key = Undefined then (Inr (IDBRequest 6), s) else (Inl (engine_error ''DataError''), s)),
     IDBObjectStore_put = (\<lambda>table val key s.
        if key = Undefined then (Inr (IDBRequest 7), s) else (Inl (engine_error ''DataError''), s)),
     IDBObjectStore_delete = (\<lambda>table key s.
        if key = Undefined then (Inl (engine_error ''DataError''), s) else (Inr (IDBRequest 8), s)),
     objectStoreNames_contains = (\<lambda>db tableName s. tableName \<in> set s),
     IDBDatabase_createObjectStore = (\<lambda>db tableName keyPath s.
        if tableName \<in> set s then (Inl (engine_error ''ConstraintError''), s)
        else (Inr (IDBObjectStore 2), tableName # s)),
     IDBObjectStore_createIndex = (\<lambda>store indexName keyPath unique s. (Inr (IDBIndex 4), s)),
     IDBDatabase_deleteObjectStore = (\<lambda>db tableName s.
        if tableName \<in> set s then (Inr (), removeAll tableName s)
        else (Inl (engine_error ''NotFoundError''), s)),
     indexedDB_deleteDatabase = (\<lambda>dbName s. (Inr (IDBRequest 9), s))\<rparr>"

text \<open>A world with a silent console and no call made, over a given list of stores.\<close>

definition fresh_world :: "string list \<Rightarrow> (nat, string list) world" where
  "fresh_world stores = \<lparr>console = [], calls = [], engine = stores\<rparr>"

section \<open>Properties of the stage handlers\<close>

lemma errorCase_tagged:
  "errorCase (err\<lparr>name := errorNameEnum n\<rparr>) w =
     (Inl (err\<lparr>name := errorNameEnum n\<rparr>),
      write_console (console_error [Str (errorNameEnum n @ occurred),
                                    Err (err\<lparr>name := errorNameEnum n\<rparr>)]) w)"
  by (cases n) (simp_all add: errorCase_def Let_def)

lemma errorHandlerGenerator_throw:
  assumes "action w = (Inl E, w')"
  shows "errorHandlerGenerator n action w =
     (Inl (E\<lparr>name := errorNameEnum n\<rparr>),
      write_console (console_error [Str (errorNameEnum n @ occurred),
                                    Err (E\<lparr>name := errorNameEnum n\<rparr>)]) w')"
  using assms
  by (simp add: errorHandlerGenerator_def customErrorBoundary_def
      customErrorBoundaryGenerator_def customErrHandlerGenerator_def errorCase_tagged)

lemma errorHandlerGenerator_return:
  assumes "action w = (Inr v, w')"
  shows "errorHandlerGenerator n action w = (Inr v, w')"
  using assms
  by (simp add: errorHandlerGenerator_def customErrorBoundary_def
      customErrorBoundaryGenerator_def customErrHandlerGenerator_def)

lemma errorHandlerGenerator_cases:
  "errorHandlerGenerator n action w =
     (case action w of
        (Inl E, w') \<Rightarrow>
          (Inl (E\<lparr>name := errorNameEnum n\<rparr>),
           write_console (console_error [Str (errorNameEnum n @ occurred),
                                         Err (E\<lparr>name := errorNameEnum n\<rparr>)]) w')
      | (Inr v, w') \<Rightarrow> (Inr v, w'))"
proof (cases "action w")
  case (Pair r w')
  show ?thesis
  proof (cases r)
    case (Inl E)
    with Pair have "action w = (Inl E, w')"
      by simp
    from errorHandlerGenerator_throw [where action = action and w = w and n = n, OF this] Pair Inl
    show ?thesis by simp
  next
    case (Inr v)
    with Pair have "action w = (Inr v, w')"
      by simp
    from errorHandlerGenerator_return [where action = action and w = w and n = n, OF this] Pair Inr
    show ?thesis by simp
  qed
qed

lemma handler_invoke:
  "errorHandlerGenerator n (invoke c f) w =
     (case f (engine w) of
        (Inl E, s') \<Rightarrow>
          (Inl (E\<lparr>name := errorNameEnum n\<rparr>),
           write_console (console_error [Str (errorNameEnum n @ occurred),
                                         Err (E\<lparr>name := errorNameEnum n\<rparr>)])
             (w\<lparr>calls := calls w @ [c], engine := s'\<rparr>))
      | (Inr v, s') \<Rightarrow> (Inr v, w\<lparr>calls := calls w @ [c], engine := s'\<rparr>))"
  by (simp add: errorHandlerGenerator_cases invoke_def split: prod.splits sum.splits)

section \<open>Auxiliary facts about the layer\<close>

lemmas stage_handler_defs =
  handleTransactionErr_def handleObjectStoreErr_def handleCreateErr_def handleIndexErr_def
  handleOpenCursorErr_def

lemmas engine_call_defs =
  db_transaction_def tx_objectStore_def table_get_def table_index_def index_openCursor_def
  table_add_def table_put_def table_delete_def names_contains_def db_createObjectStore_def
  store_createIndex_def db_deleteObjectStore_def deleteDatabase_def

lemma getValue_transaction_throws:
  assumes "IDBDatabase_transaction eng db tableName readonly (engine w) = (Inl E, s1)"
  shows "getValue eng (Defined db) tableName indexing key w =
     ((Rejected (Envelope ''uncaught error'' (E\<lparr>name := ''transactionError''\<rparr>)), None),
      write_console (console_error [Str (''transactionError'' @ occurred),
                                    Err (E\<lparr>name := ''transactionError''\<rparr>)])
        (w\<lparr>calls := calls w @ [call_transaction db tableName readonly], engine := s1\<rparr>))"
  using assms
  by (simp add: getValue_def getValue_try_def try_catch_def and_then_def handleTransactionErr_def
      handler_invoke db_transaction_def reject_def)

lemma getValue_objectStore_throws:
  assumes "IDBDatabase_transaction eng db tableName readonly (engine w) = (Inr transaction, s1)"
    and "IDBTransaction_objectStore eng transaction tableName s1 = (Inl E, s2)"
  shows "getValue eng (Defined db) tableName indexing key w =
     ((Rejected (Envelope ''uncaught error'' (E\<lparr>name := ''objectStoreError''\<rparr>)), None),
      write_console (console_error [Str (''objectStoreError'' @ occurred),
                                    Err (E\<lparr>name := ''objectStoreError''\<rparr>)])
        (w\<lparr>calls := calls w @ [call_transaction db tableName readonly,
                                  call_objectStore transaction tableName], engine := s2\<rparr>))"
  using assms
  by (simp add: getValue_def getValue_try_def try_catch_def and_then_def stage_handler_defs
      handler_invoke engine_call_defs reject_def)

lemma getValue_get_throws:
  assumes "IDBDatabase_transaction eng db tableName readonly (engine w) = (Inr transaction, s1)"
    and "IDBTransaction_objectStore eng transaction tableName s1 = (Inr table, s2)"
    and "IDBObjectStore_get eng table key s2 = (Inl E, s3)"
  shows "getValue eng (Defined db) tableName indexing key w =
     ((Rejected (Envelope ''uncaught error'' E), None),
      w\<lparr>calls := calls w @ [call_transaction db tableName readonly,
                              call_objectStore transaction tableName, call_get table key],
        engine := s3\<rparr>)"
  using assms
  by (simp add: getValue_def getValue_try_def try_catch_def and_then_def stage_handler_defs
      handler_invoke engine_call_defs reject_def invoke_def)

lemma getValue_request_issued:
  assumes "IDBDatabase_transaction eng db tableName readonly (engine w) = (Inr transaction, s1)"
    and "IDBTransaction_objectStore eng transaction tableName s1 = (Inr table, s2)"
    and "IDBObjectStore_get eng table key s2 = (Inr request, s3)"
  shows "getValue eng (Defined db) tableName indexing key w =
     ((Pending, Some \<lparr>target = request, onsuccess = getValue_onsuccess, onerror = getValue_onerror\<rparr>),
      w\<lparr>calls := calls w @ [call_transaction db tableName readonly,
                              call_objectStore transaction tableName, call_get table key],
        engine := s3\<rparr>)"
  using assms
  by (simp add: getValue_def getValue_try_def try_catch_def and_then_def stage_handler_defs
      handler_invoke engine_call_defs ret_def invoke_def)

lemmas read_run_defs =
  getValue_def getValue_try_def getLastValueFromTable_def getLastValueFromTable_try_def
  try_catch_def and_then_def ret_def stage_handler_defs errorHandlerGenerator_cases
  engine_call_defs invoke_def reject_def

lemma getLastValueFromTable_transaction_throws:
  assumes "IDBDatabase_transaction eng db tableName readonly (engine w) = (Inl E, s1)"
  shows "fst (getLastValueFromTable eng (Defined db) tableName indexName w) =
     (Rejected (Envelope ''uncaught error'' (E\<lparr>name := ''transactionError''\<rparr>)), None)"
  using assms by (simp add: read_run_defs)

lemma getLastValueFromTable_objectStore_throws:
  assumes "IDBDatabase_transaction eng db tableName readonly (engine w) = (Inr transaction, s1)"
    and "IDBTransaction_objectStore eng transaction tableName s1 = (Inl E, s2)"
  shows "fst (getLastValueFromTable eng (Defined db) tableName indexName w) =
     (Rejected (Envelope ''uncaught error'' (E\<lparr>name := ''objectStoreError''\<rparr>)), None)"
  using assms by (simp add: read_run_defs)

lemma getLastValueFromTable_index_throws:
  assumes "IDBDatabase_transaction eng db tableName readonly (engine w) = (Inr transaction, s1)"
    and "IDBTransaction_objectStore eng transaction tableName s1 = (Inr table, s2)"
    and "IDBObjectStore_index eng table indexName s2 = (Inl E, s3)"
  shows "fst (getLastValueFromTable eng (Defined db) tableName indexName w) =
     (Rejected (Envelope ''uncaught error'' (E\<lparr>name := ''indexError''\<rparr>)), None)"
  using assms by (simp add: read_run_defs)

lemma getLastValueFromTable_openCursor_throws:
  assumes "IDBDatabase_transaction eng db tableName readonly (engine w) = (Inr transaction, s1)"
    and "IDBTransaction_objectStore eng transaction tableName s1 = (Inr table, s2)"
    and "IDBObjectStore_index eng table indexName s2 = (Inr index, s3)"
    and "IDBIndex_openCursor eng index cursor_prev s3 = (Inl E, s4)"
  shows "fst (getLastValueFromTable eng (Defined db) tableName indexName w) =
     (Rejected (Envelope ''uncaught error'' (E\<lparr>name := ''openCursorError''\<rparr>)), None)"
  using assms by (simp add: read_run_defs)

lemma read_try_throw_rejected:
  "(getValue_try eng database tableName key w = (Inl err, w') \<longrightarrow>
      getValue eng database tableName indexing key w =
        ((Rejected (Envelope ''uncaught error'' err), None), w')) \<and>
   (getLastValueFromTable_try eng database tableName indexName w = (Inl err2, w2) \<longrightarrow>
      getLastValueFromTable eng database tableName indexName w =
        ((Rejected (Envelope ''uncaught error'' err2), None), w2))"
  by (simp add: getValue_def getLastValueFromTable_def try_catch_def reject_def)

lemma saveValue_listeners:
  assumes "saveValue eng database tableName key val type onSuccess onError w = (Some l, w')"
  shows "onsuccess l = saveValue_onsuccess onSuccess \<and> onerror l = saveValue_onerror onError"
  using assms
  by (auto simp: saveValue_def try_catch_def saveValue_try_def and_then_def ret_def
      split: js.splits option.splits prod.splits sum.splits)

lemma deleteValue_listeners:
  assumes "deleteValue eng database tableName key onSuccess onError w = (Some l, w')"
  shows "onsuccess l = deleteValue_onsuccess onSuccess \<and> onerror l = deleteValue_onerror onError"
  using assms
  by (auto simp: deleteValue_def try_catch_def deleteValue_try_def and_then_def ret_def
      split: js.splits option.splits prod.splits sum.splits)

lemma getLastValueFromTable_listeners:
  assumes "getLastValueFromTable eng database tableName indexing w = ((p, Some l), w')"
  shows "p = Pending \<and> onsuccess l = getLastValueFromTable_onsuccess \<and>
         onerror l = getLastValueFromTable_onerror"
  using assms
  by (auto simp: getLastValueFromTable_def try_catch_def getLastValueFromTable_try_def and_then_def
      ret_def stage_handler_defs errorHandlerGenerator_cases engine_call_defs invoke_def
      resolve_def reject_def
      split: js.splits option.splits prod.splits sum.splits)

lemma getLastValueFromTable_cursor_opened:
  assumes "IDBDatabase_transaction eng db tableName readonly (engine w) = (Inr transaction, s1)"
    and "IDBTransaction_objectStore eng transaction tableName s1 = (Inr table, s2)"
    and "IDBObjectStore_index eng table indexing s2 = (Inr index, s3)"
    and "IDBIndex_openCursor eng index cursor_prev s3 = (Inr cursor, s4)"
  shows "getLastValueFromTable eng (Defined db) tableName indexing w =
     ((Pending, Some \<lparr>target = cursor, onsuccess = getLastValueFromTable_onsuccess,
                      onerror = getLastValueFromTable_onerror\<rparr>),
      w\<lparr>calls := calls w @ [call_transaction db tableName readonly,
                              call_objectStore transaction tableName,
                              call_index table indexing, call_openCursor index cursor_prev],
        engine := s4\<rparr>)"
  using assms
  by (simp add: getLastValueFromTable_def getLastValueFromTable_try_def try_catch_def and_then_def
      ret_def stage_handler_defs errorHandlerGenerator_cases engine_call_defs invoke_def)

lemma deliver_all_settled:
  assumes "p \<noteq> Pending"
    and "onsuccess l = getLastValueFromTable_onsuccess"
    and "onerror l = getLastValueFromTable_onerror"
  shows "deliver_all l ns (p, w) = (p, w)"
proof (induction ns)
  case Nil
  show ?case by simp
next
  case (Cons n ns)
  have "deliver l n (p, w) = (p, w)"
    using assms
    by (cases n; cases p)
      (simp_all add: getLastValueFromTable_onsuccess_def getLastValueFromTable_onerror_def
        resolve_def reject_def)
  with Cons show ?case by simp
qed

lemma deliver_all_world:
  assumes "onsuccess l = getLastValueFromTable_onsuccess"
    and "onerror l = getLastValueFromTable_onerror"
  shows "snd (deliver_all l ns x) = snd x"
proof (induction ns arbitrary: x)
  case Nil
  show ?case by simp
next
  case (Cons n ns)
  have "snd (deliver l n x) = snd x"
    using assms
    by (cases n; cases x)
      (simp_all add: getLastValueFromTable_onsuccess_def getLastValueFromTable_onerror_def)
  with Cons show ?case by simp
qed

lemma saveValue_only_declared_kind:
  "\<exists>new. calls (snd (saveValue eng (Defined db) tableName key val type onSuccess onError w)) =
            calls w @ new \<and>
     (\<forall>t v k. call_add t v k \<in> set new \<longrightarrow> type = add) \<and>
     (\<forall>t v k. call_put t v k \<in> set new \<longrightarrow> type \<noteq> add)"
  by (simp add: saveValue_def saveValue_try_def try_catch_def and_then_def ret_def
      stage_handler_defs handler_invoke engine_call_defs write_console_def
      split: prod.splits sum.splits)

lemma saveValue_request_throws:
  assumes "IDBDatabase_transaction eng db tableName readwrite (engine w) = (Inr transaction, s1)"
    and "IDBTransaction_objectStore eng transaction tableName s1 = (Inr table, s2)"
    and "(if type = add then IDBObjectStore_add eng table val key s2
          else IDBObjectStore_put eng table val key s2) = (Inl E, s3)"
  shows "saveValue eng (Defined db) tableName key val type onSuccess onError w =
     (None,
      w\<lparr>console := console w @
           [console_error [Str (''createError'' @ occurred), Err (E\<lparr>name := ''createError''\<rparr>)],
            console_log [Str ''uncaught error'', Err (E\<lparr>name := ''createError''\<rparr>)]],
        calls := calls w @
           [call_transaction db tableName readwrite, call_objectStore transaction tableName,
            if type = add then call_add table val key else call_put table val key],
        engine := s3\<rparr>)"
  using assms
  by (simp add: saveValue_def saveValue_try_def try_catch_def and_then_def ret_def
      stage_handler_defs handler_invoke engine_call_defs write_console_def
      split: if_splits)

lemma saveValue_request_issued:
  assumes "IDBDatabase_transaction eng db tableName readwrite (engine w) = (Inr transaction, s1)"
    and "IDBTransaction_objectStore eng transaction tableName s1 = (Inr table, s2)"
    and "(if type = add then IDBObjectStore_add eng table val key s2
          else IDBObjectStore_put eng table val key s2) = (Inr request, s3)"
  shows "saveValue eng (Defined db) tableName key val type onSuccess onError w =
     (Some \<lparr>target = request, onsuccess = saveValue_onsuccess onSuccess,
            onerror = saveValue_onerror onError\<rparr>,
      w\<lparr>calls := calls w @
           [call_transaction db tableName readwrite, call_objectStore transaction tableName,
            if type = add then call_add table val key else call_put table val key],
        engine := s3\<rparr>)"
  using assms
  by (simp add: saveValue_def saveValue_try_def try_catch_def and_then_def ret_def
      stage_handler_defs handler_invoke engine_call_defs write_console_def
      split: if_splits)

lemma createTable_existing:
  assumes "(case db_arg of Undefined \<Rightarrow> database | _ \<Rightarrow> db_arg) = Defined h"
    and "objectStoreNames_contains eng h tableName (engine w)"
  shows "createTable eng indexing_memo database tableName db_arg w =
     (Inr None, w\<lparr>calls := calls w @ [call_contains h tableName]\<rparr>)"
  using assms
  by (simp add: createTable_def and_then_def ret_def names_contains_def invoke_def)

lemma createTable_leaves_table:
  assumes "schema_contract eng"
    and "(case db_arg of Undefined \<Rightarrow> database | _ \<Rightarrow> db_arg) = Defined h"
    and "createTable eng indexing_memo database tableName db_arg w = (Inr r, w1)"
  shows "objectStoreNames_contains eng h tableName (engine w1)"
proof (cases "objectStoreNames_contains eng h tableName (engine w)")
  case True
  from createTable_existing [OF assms(2) True, of indexing_memo] assms(3) True
  show ?thesis by auto
next
  case False
  obtain r1 t1 where c: "IDBDatabase_createObjectStore eng h tableName indexing_memo (engine w) = (r1, t1)"
    by (cases "IDBDatabase_createObjectStore eng h tableName indexing_memo (engine w)")
  show ?thesis
  proof (cases r1)
    case (Inl E)
    with c False assms(2,3) show ?thesis
      by (simp add: createTable_def and_then_def ret_def engine_call_defs invoke_def)
  next
    case (Inr store)
    obtain r2 t2 where i:
      "IDBObjectStore_createIndex eng store indexing_memo indexing_memo True t1 = (r2, t2)"
      by (cases "IDBObjectStore_createIndex eng store indexing_memo indexing_memo True t1")
    from assms(1) c Inr have "objectStoreNames_contains eng h tableName t1"
      unfolding schema_contract_def by blast
    with assms(1) i have t2: "objectStoreNames_contains eng h tableName t2"
      unfolding schema_contract_def by blast
    from c Inr i False assms(2,3) have "engine w1 = t2"
      by (cases r2) (auto simp: createTable_def and_then_def ret_def engine_call_defs invoke_def)
    with t2 show ?thesis by simp
  qed
qed

lemma memory_engine_schema_contract: "schema_contract memory_engine"
  by (simp add: schema_contract_def memory_engine_def)

section \<open>The claims\<close>

text \<open>
  C1: for each of the five stage handlers, when the action throws an error \<open>E\<close> the handler
  writes exactly one diagnostic to the console, a \<open>console.error\<close> whose message begins with
  the handler's stage name, and itself throws \<open>E\<close> carrying that stage name: the failure is
  not swallowed. Whatever the action did to the world before throwing is kept.
\<close>

theorem stage_handler_reports_once_and_rethrows:
  assumes "(handler, stage) \<in> stage_handlers" and "action w = (Inl E, w')"
  shows "handler action w =
     (Inl (E\<lparr>name := errorNameEnum stage\<rparr>),
      w'\<lparr>console := console w' @
            [console_error [Str (errorNameEnum stage @ occurred),
                            Err (E\<lparr>name := errorNameEnum stage\<rparr>)]]\<rparr>)"
proof -
  from assms(1) have "handler = errorHandlerGenerator stage"
    by (auto simp: stage_handlers_def handleTransactionErr_def handleObjectStoreErr_def
        handleCreateErr_def handleIndexErr_def handleOpenCursorErr_def)
  with errorHandlerGenerator_throw [where action = action and w = w and n = stage, OF assms(2)]
  show ?thesis
    by (simp add: write_console_def)
qed

theorem stage_handler_reports_once_and_rethrows_witness:
  "(handleIndexErr :: (IDBIndex, nat, string list) computation \<Rightarrow> _, indexError)
     \<in> stage_handlers \<and>
   table_index memory_engine (IDBObjectStore 2) ''missing'' (fresh_world [''memo'']) =
     (Inl (engine_error ''NotFoundError''),
      \<lparr>console = [], calls = [call_index (IDBObjectStore 2) ''missing''], engine = [''memo'']\<rparr>) \<and>
   handleIndexErr (table_index memory_engine (IDBObjectStore 2) ''missing'') (fresh_world [''memo'']) =
     (Inl \<lparr>name = ''indexError'', message = ''raised by the engine''\<rparr>,
      \<lparr>console = [console_error [Str (''indexError'' @ occurred),
                     Err \<lparr>name = ''indexError'', message = ''raised by the engine''\<rparr>]],
       calls = [call_index (IDBObjectStore 2) ''missing''], engine = [''memo'']\<rparr>)"
proof -
  have m: "(handleIndexErr, indexError) \<in>
      (stage_handlers :: ((((IDBIndex, nat, string list) computation) \<Rightarrow> _) \<times> _) set)"
    by (simp add: stage_handlers_def)
  have a: "table_index memory_engine (IDBObjectStore 2) ''missing'' (fresh_world [''memo'']) =
     (Inl (engine_error ''NotFoundError''),
      \<lparr>console = [], calls = [call_index (IDBObjectStore 2) ''missing''], engine = [''memo'']\<rparr>)"
    by (simp add: table_index_def invoke_def memory_engine_def fresh_world_def)
  from stage_handler_reports_once_and_rethrows
         [where handler = handleIndexErr and stage = indexError
            and action = "table_index memory_engine (IDBObjectStore 2) ''missing''"
            and w = "fresh_world [''memo'']", OF m a] m a
  show ?thesis
    by (simp add: engine_error_def)
qed



text \<open>
  Apart from that, \<open>deleteTable\<close> is the one operation whose guard lets an \<open>undefined\<close>
  handle through. Where its siblings log and return, it throws a \<open>TypeError\<close> to the caller;
  it writes nothing and makes no engine call.
\<close>

theorem deleteTable_undefined_handle_throws:
  "deleteTable eng Undefined tableName w =
     (Inl \<lparr>name = ''TypeError'', message = ''Cannot read properties of undefined''\<rparr>, w) \<and>
   deleteTable memory_engine Undefined ''memo'' (fresh_world [''memo'']) \<noteq>
     (Inr (), write_console (console_error [Str ''no database'']) (fresh_world [''memo'']))"
  by (simp add: deleteTable_def)

text \<open>
  C3: without a current handle, be it \<open>null\<close> or \<open>undefined\<close>, \<open>getValue\<close> resolves its
  promise with \<open>undefined\<close>, assigns
  no request handler, leaves the world untouched, and a later rejection cannot change the
  settled promise.
\<close>

theorem getValue_without_handle:
  "getValue eng Null tableName indexing key w = ((Resolved Undefined, None), w) \<and>
   getValue eng Undefined tableName indexing key w = ((Resolved Undefined, None), w) \<and>
   reject r (fst (fst (getValue eng Null tableName indexing key w))) = Resolved Undefined \<and>
   reject r (fst (fst (getValue eng Undefined tableName indexing key w))) = Resolved Undefined"
  by (simp add: getValue_def getValue_try_def try_catch_def ret_def resolve_def reject_def)

text \<open>
  C4: whenever the body of the \<open>try\<close> block of \<open>getValue\<close> or of
  \<open>getLastValueFromTable\<close> throws an error, the operation returns normally with its promise
  rejected with \<open>{ reason: 'uncaught error', err }\<close>, where \<open>err\<close> is the error thrown, and
  the world is the one the throw left. Step by step, for an error \<open>E\<close> thrown by the engine:
  from \<open>transaction\<close>, \<open>objectStore\<close>, \<open>index\<close> or \<open>openCursor\<close> the envelope carries
  \<open>E\<close> as re-thrown by the stage handler, that is with the stage's name; from the unwrapped
  \<open>get\<close> it carries \<open>E\<close> itself.
\<close>

theorem read_sync_throw_rejected:
  "(getValue_try eng database tableName key w = (Inl err, w') \<longrightarrow>
      getValue eng database tableName indexing key w =
        ((Rejected (Envelope ''uncaught error'' err), None), w')) \<and>
   (getLastValueFromTable_try eng database tableName indexName w = (Inl err2, w2) \<longrightarrow>
      getLastValueFromTable eng database tableName indexName w =
        ((Rejected (Envelope ''uncaught error'' err2), None), w2)) \<and>
   (IDBDatabase_transaction eng db tableName readonly (engine w) = (Inl E, s1) \<longrightarrow>
      fst (getValue eng (Defined db) tableName indexing key w) =
        (Rejected (Envelope ''uncaught error'' (E\<lparr>name := ''transactionError''\<rparr>)), None) \<and>
      fst (getLastValueFromTable eng (Defined db) tableName indexName w) =
        (Rejected (Envelope ''uncaught error'' (E\<lparr>name := ''transactionError''\<rparr>)), None)) \<and>
   (IDBDatabase_transaction eng db tableName readonly (engine w) = (Inr transaction, s1) \<and>
    IDBTransaction_objectStore eng transaction tableName s1 = (Inl E, s2) \<longrightarrow>
      fst (getValue eng (Defined db) tableName indexing key w) =
        (Rejected (Envelope ''uncaught error'' (E\<lparr>name := ''objectStoreError''\<rparr>)), None) \<and>
      fst (getLastValueFromTable eng (Defined db) tableName indexName w) =
        (Rejected (Envelope ''uncaught error'' (E\<lparr>name := ''objectStoreError''\<rparr>)), None)) \<and>
   (IDBDatabase_transaction eng db tableName readonly (engine w) = (Inr transaction, s1) \<and>
    IDBTransaction_objectStore eng transaction tableName s1 = (Inr table, s2) \<and>
    IDBObjectStore_get eng table key s2 = (Inl E, s3) \<longrightarrow>
      fst (getValue eng (Defined db) tableName indexing key w) =
        (Rejected (Envelope ''uncaught error'' E), None)) \<and>
   (IDBDatabase_transaction eng db tableName readonly (engine w) = (Inr transaction, s1) \<and>
    IDBTransaction_objectStore eng transaction tableName s1 = (Inr table, s2) \<and>
    IDBObjectStore_index eng table indexName s2 = (Inl E, s3) \<longrightarrow>
      fst (getLastValueFromTable eng (Defined db) tableName indexName w) =
        (Rejected (Envelope ''uncaught error'' (E\<lparr>name := ''indexError''\<rparr>)), None)) \<and>
   (IDBDatabase_transaction eng db tableName readonly (engine w) = (Inr transaction, s1) \<and>
    IDBTransaction_objectStore eng transaction tableName s1 = (Inr table, s2) \<and>
    IDBObjectStore_index eng table indexName s2 = (Inr index, s3) \<and>
    IDBIndex_openCursor eng index cursor_prev s3 = (Inl E, s4) \<longrightarrow>
      fst (getLastValueFromTable eng (Defined db) tableName indexName w) =
        (Rejected (Envelope ''uncaught error'' (E\<lparr>name := ''openCursorError''\<rparr>)), None))"
proof (intro conjI impI; (elim conjE)?)
  assume "getValue_try eng database tableName key w = (Inl err, w')"
  then show "getValue eng database tableName indexing key w =
        ((Rejected (Envelope ''uncaught error'' err), None), w')"
    using read_try_throw_rejected by blast
next
  assume "getLastValueFromTable_try eng database tableName indexName w = (Inl err2, w2)"
  then show "getLastValueFromTable eng database tableName indexName w =
        ((Rejected (Envelope ''uncaught error'' err2), None), w2)"
    using read_try_throw_rejected by blast
next
  assume "IDBDatabase_transaction eng db tableName readonly (engine w) = (Inl E, s1)"
  then show "fst (getValue eng (Defined db) tableName indexing key w) =
        (Rejected (Envelope ''uncaught error'' (E\<lparr>name := ''transactionError''\<rparr>)), None)"
    by (simp add: getValue_transaction_throws)
next
  assume "IDBDatabase_transaction eng db tableName readonly (engine w) = (Inl E, s1)"
  then show "fst (getLastValueFromTable eng (Defined db) tableName indexName w) =
        (Rejected (Envelope ''uncaught error'' (E\<lparr>name := ''transactionError''\<rparr>)), None)"
    by (rule getLastValueFromTable_transaction_throws)
next
  assume "IDBDatabase_transaction eng db tableName readonly (engine w) = (Inr transaction, s1)"
    and "IDBTransaction_objectStore eng transaction tableName s1 = (Inl E, s2)"
  then show "fst (getValue eng (Defined db) tableName indexing key w) =
        (Rejected (Envelope ''uncaught error'' (E\<lparr>name := ''objectStoreError''\<rparr>)), None)"
    by (simp add: getValue_objectStore_throws)
next
  assume "IDBDatabase_transaction eng db tableName readonly (engine w) = (Inr transaction, s1)"
    and "IDBTransaction_objectStore eng transaction tableName s1 = (Inl E, s2)"
  then show "fst (getLastValueFromTable eng (Defined db) tableName indexName w) =
        (Rejected (Envelope ''uncaught error'' (E\<lparr>name := ''objectStoreError''\<rparr>)), None)"
    by (rule getLastValueFromTable_objectStore_throws)
next
  assume "IDBDatabase_transaction eng db tableName readonly (engine w) = (Inr transaction, s1)"
    and "IDBTransaction_objectStore eng transaction tableName s1 = (Inr table, s2)"
    and "IDBObjectStore_get eng table key s2 = (Inl E, s3)"
  then show "fst (getValue eng (Defined db) tableName indexing key w) =
        (Rejected (Envelope ''uncaught error'' E), None)"
    by (simp add: getValue_get_throws)
next
  assume "IDBDatabase_transaction eng db tableName readonly (engine w) = (Inr transaction, s1)"
    and "IDBTransaction_objectStore eng transaction tableName s1 = (Inr table, s2)"
    and "IDBObjectStore_index eng table indexName s2 = (Inl E, s3)"
  then show "fst (getLastValueFromTable eng (Defined db) tableName indexName w) =
        (Rejected (Envelope ''uncaught error'' (E\<lparr>name := ''indexError''\<rparr>)), None)"
    by (rule getLastValueFromTable_index_throws)
next
  assume "IDBDatabase_transaction eng db tableName readonly (engine w) = (Inr transaction, s1)"
    and "IDBTransaction_objectStore eng transaction tableName s1 = (Inr table, s2)"
    and "IDBObjectStore_index eng table indexName s2 = (Inr index, s3)"
    and "IDBIndex_openCursor eng index cursor_prev s3 = (Inl E, s4)"
  then show "fst (getLastValueFromTable eng (Defined db) tableName indexName w) =
        (Rejected (Envelope ''uncaught error'' (E\<lparr>name := ''openCursorError''\<rparr>)), None)"
    by (rule getLastValueFromTable_openCursor_throws)
qed

theorem read_sync_throw_rejected_witness:
  "getValue_try memory_engine (Defined (IDBDatabase 0)) ''memo'' (Defined 1) (fresh_world []) =
     (Inl \<lparr>name = ''transactionError'', message = ''raised by the engine''\<rparr>,
      \<lparr>console = [console_error [Str (''transactionError'' @ occurred),
                     Err \<lparr>name = ''transactionError'', message = ''raised by the engine''\<rparr>]],
       calls = [call_transaction (IDBDatabase 0) ''memo'' readonly], engine = []\<rparr>) \<and>
   getValue memory_engine (Defined (IDBDatabase 0)) ''memo'' Undefined (Defined 1) (fresh_world []) =
     ((Rejected (Envelope ''uncaught error''
                  \<lparr>name = ''transactionError'', message = ''raised by the engine''\<rparr>), None),
      \<lparr>console = [console_error [Str (''transactionError'' @ occurred),
                     Err \<lparr>name = ''transactionError'', message = ''raised by the engine''\<rparr>]],
       calls = [call_transaction (IDBDatabase 0) ''memo'' readonly], engine = []\<rparr>) \<and>
   getLastValueFromTable_try memory_engine (Defined (IDBDatabase 0)) ''memo'' ''missing''
       (fresh_world [''memo'']) =
     (Inl \<lparr>name = ''indexError'', message = ''raised by the engine''\<rparr>,
      \<lparr>console = [console_error [Str (''indexError'' @ occurred),
                     Err \<lparr>name = ''indexError'', message = ''raised by the engine''\<rparr>]],
       calls = [call_transaction (IDBDatabase 0) ''memo'' readonly,
                call_objectStore (IDBTransaction 1) ''memo'',
                call_index (IDBObjectStore 2) ''missing''], engine = [''memo'']\<rparr>) \<and>
   getLastValueFromTable memory_engine (Defined (IDBDatabase 0)) ''memo'' ''missing''
       (fresh_world [''memo'']) =
     ((Rejected (Envelope ''uncaught error''
                  \<lparr>name = ''indexError'', message = ''raised by the engine''\<rparr>), None),
      \<lparr>console = [console_error [Str (''indexError'' @ occurred),
                     Err \<lparr>name = ''indexError'', message = ''raised by the engine''\<rparr>]],
       calls = [call_transaction (IDBDatabase 0) ''memo'' readonly,
                call_objectStore (IDBTransaction 1) ''memo'',
                call_index (IDBObjectStore 2) ''missing''], engine = [''memo'']\<rparr>) \<and>
   IDBDatabase_transaction memory_engine (IDBDatabase 0) ''memo'' readonly
       (engine (fresh_world [''memo''])) = (Inr (IDBTransaction 1), [''memo'']) \<and>
   IDBTransaction_objectStore memory_engine (IDBTransaction 1) ''memo'' [''memo''] =
     (Inr (IDBObjectStore 2), [''memo'']) \<and>
   IDBObjectStore_index memory_engine (IDBObjectStore 2) ''missing'' [''memo''] =
     (Inl (engine_error ''NotFoundError''), [''memo'']) \<and>
   fst (getLastValueFromTable memory_engine (Defined (IDBDatabase 0)) ''memo'' ''missing''
       (fresh_world [''memo''])) =
     (Rejected (Envelope ''uncaught error'' (engine_error ''NotFoundError''\<lparr>name := ''indexError''\<rparr>)),
      None)"
proof -
  have a: "getValue_try memory_engine (Defined (IDBDatabase 0)) ''memo'' (Defined 1) (fresh_world []) =
     (Inl \<lparr>name = ''transactionError'', message = ''raised by the engine''\<rparr>,
      \<lparr>console = [console_error [Str (''transactionError'' @ occurred),
                     Err \<lparr>name = ''transactionError'', message = ''raised by the engine''\<rparr>]],
       calls = [call_transaction (IDBDatabase 0) ''memo'' readonly], engine = []\<rparr>)"
    by (simp add: getValue_try_def and_then_def stage_handler_defs handler_invoke
        engine_call_defs memory_engine_def fresh_world_def write_console_def engine_error_def)
  have b: "getLastValueFromTable_try memory_engine (Defined (IDBDatabase 0)) ''memo'' ''missing''
       (fresh_world [''memo'']) =
     (Inl \<lparr>name = ''indexError'', message = ''raised by the engine''\<rparr>,
      \<lparr>console = [console_error [Str (''indexError'' @ occurred),
                     Err \<lparr>name = ''indexError'', message = ''raised by the engine''\<rparr>]],
       calls = [call_transaction (IDBDatabase 0) ''memo'' readonly,
                call_objectStore (IDBTransaction 1) ''memo'',
                call_index (IDBObjectStore 2) ''missing''], engine = [''memo'']\<rparr>)"
    by (simp add: getLastValueFromTable_try_def and_then_def stage_handler_defs handler_invoke
        engine_call_defs memory_engine_def fresh_world_def write_console_def engine_error_def)
  have tx: "IDBDatabase_transaction memory_engine (IDBDatabase 0) ''memo'' readonly
        (engine (fresh_world [''memo''])) = (Inr (IDBTransaction 1), [''memo''])"
    by (simp add: memory_engine_def fresh_world_def)
  have os: "IDBTransaction_objectStore memory_engine (IDBTransaction 1) ''memo'' [''memo''] =
        (Inr (IDBObjectStore 2), [''memo''])"
    by (simp add: memory_engine_def)
  have ix: "IDBObjectStore_index memory_engine (IDBObjectStore 2) ''missing'' [''memo''] =
        (Inl (engine_error ''NotFoundError''), [''memo''])"
    by (simp add: memory_engine_def)
  note t = read_sync_throw_rejected
  have c: "getValue memory_engine (Defined (IDBDatabase 0)) ''memo'' Undefined (Defined 1) (fresh_world []) =
     ((Rejected (Envelope ''uncaught error''
                  \<lparr>name = ''transactionError'', message = ''raised by the engine''\<rparr>), None),
      \<lparr>console = [console_error [Str (''transactionError'' @ occurred),
                     Err \<lparr>name = ''transactionError'', message = ''raised by the engine''\<rparr>]],
       calls = [call_transaction (IDBDatabase 0) ''memo'' readonly], engine = []\<rparr>)"
    by (rule t [THEN conjunct1, THEN mp, OF a])
  have d: "getLastValueFromTable memory_engine (Defined (IDBDatabase 0)) ''memo'' ''missing''
       (fresh_world [''memo'']) =
     ((Rejected (Envelope ''uncaught error''
                  \<lparr>name = ''indexError'', message = ''raised by the engine''\<rparr>), None),
      \<lparr>console = [console_error [Str (''indexError'' @ occurred),
                     Err \<lparr>name = ''indexError'', message = ''raised by the engine''\<rparr>]],
       calls = [call_transaction (IDBDatabase 0) ''memo'' readonly,
                call_objectStore (IDBTransaction 1) ''memo'',
                call_index (IDBObjectStore 2) ''missing''], engine = [''memo'']\<rparr>)"
    by (rule t [THEN conjunct2, THEN conjunct1, THEN mp, OF b])
  have e: "fst (getLastValueFromTable memory_engine (Defined (IDBDatabase 0)) ''memo'' ''missing''
       (fresh_world [''memo''])) =
     (Rejected (Envelope ''uncaught error'' (engine_error ''NotFoundError''\<lparr>name := ''indexError''\<rparr>)),
      None)"
    by (rule t [THEN conjunct2, THEN conjunct2, THEN conjunct2, THEN conjunct2, THEN conjunct2,
                THEN conjunct1, THEN mp, OF conjI [OF tx conjI [OF os ix]]])
  show ?thesis
    by (rule conjI [OF a conjI [OF c conjI [OF b conjI [OF d conjI [OF tx conjI [OF os conjI [OF ix e]]]]]]])
qed

text \<open>
  C5, as amended: when the body of the \<open>try\<close> block of \<open>saveValue\<close> or of \<open>deleteValue\<close>
  throws, the operation returns normally, having only written
  \<open>console.log('uncaught error', err)\<close>; it hands out no request and has no promise to
  reject. On a request's error notification \<open>deleteValue\<close> calls \<open>onError\<close> when supplied
  and otherwise does nothing, while \<open>saveValue\<close> first writes a \<open>console.error\<close> line,
  whether or not \<open>onError\<close> is supplied, and then calls \<open>onError\<close> when supplied.
\<close>

theorem write_failures_logged_or_called_back:
  "(saveValue_try eng db tableName key val type onSuccess onError w = (Inl err, w1) \<longrightarrow>
      saveValue eng (Defined db) tableName key val type onSuccess onError w =
        (None, write_console (console_log [Str ''uncaught error'', Err err]) w1)) \<and>
   (deleteValue_try eng db tableName key onSuccess onError w = (Inl err2, w2) \<longrightarrow>
      deleteValue eng (Defined db) tableName key onSuccess onError w =
        (None, write_console (console_log [Str ''uncaught error'', Err err2]) w2)) \<and>
   (saveValue eng database tableName key val type onSuccess onError w = (Some l, w3) \<longrightarrow>
      deliver l (Failure e) x =
        call_if_supplied onError
          (write_console (console_error [Str ''no suffient space to save data'']) x)) \<and>
   (deleteValue eng database tableName key onSuccess onError w = (Some l2, w4) \<longrightarrow>
      deliver l2 (Failure e) x = call_if_supplied onError x) \<and>
   call_if_supplied (Some f) x = f x \<and> call_if_supplied None x = x"
proof -
  have s: "saveValue eng database tableName key val type onSuccess onError w = (Some l, w3) \<Longrightarrow>
      deliver l (Failure e) x =
        call_if_supplied onError
          (write_console (console_error [Str ''no suffient space to save data'']) x)"
    by (simp add: saveValue_listeners saveValue_onerror_def)
  have d: "deleteValue eng database tableName key onSuccess onError w = (Some l2, w4) \<Longrightarrow>
      deliver l2 (Failure e) x = call_if_supplied onError x"
    by (simp add: deleteValue_listeners deleteValue_onerror_def)
  have a: "saveValue_try eng db tableName key val type onSuccess onError w = (Inl err, w1) \<Longrightarrow>
      saveValue eng (Defined db) tableName key val type onSuccess onError w =
        (None, write_console (console_log [Str ''uncaught error'', Err err]) w1)"
    by (simp add: saveValue_def try_catch_def)
  have b: "deleteValue_try eng db tableName key onSuccess onError w = (Inl err2, w2) \<Longrightarrow>
      deleteValue eng (Defined db) tableName key onSuccess onError w =
        (None, write_console (console_log [Str ''uncaught error'', Err err2]) w2)"
    by (simp add: deleteValue_def try_catch_def)
  have c: "call_if_supplied (Some f) x = f x \<and> call_if_supplied None x = x"
    by (simp add: call_if_supplied_def)
  from a b s d c show ?thesis
    by blast
qed

theorem write_failures_logged_or_called_back_witness:
  "saveValue_try memory_engine (IDBDatabase 0) ''memo'' (Defined 1) (Defined 7) put None
       (Some (write_console (console_log [Str ''told'']))) (fresh_world [''memo'']) =
     (Inl \<lparr>name = ''createError'', message = ''raised by the engine''\<rparr>,
      \<lparr>console = [console_error [Str (''createError'' @ occurred),
                     Err \<lparr>name = ''createError'', message = ''raised by the engine''\<rparr>]],
       calls = [call_transaction (IDBDatabase 0) ''memo'' readwrite,
                call_objectStore (IDBTransaction 1) ''memo'',
                call_put (IDBObjectStore 2) (Defined 7) (Defined 1)],
       engine = [''memo'']\<rparr>) \<and>
   saveValue memory_engine (Defined (IDBDatabase 0)) ''memo'' (Defined 1) (Defined 7) put None
       (Some (write_console (console_log [Str ''told'']))) (fresh_world [''memo'']) =
     (None,
      \<lparr>console = [console_error [Str (''createError'' @ occurred),
                     Err \<lparr>name = ''createError'', message = ''raised by the engine''\<rparr>],
                  console_log [Str ''uncaught error'',
                     Err \<lparr>name = ''createError'', message = ''raised by the engine''\<rparr>]],
       calls = [call_transaction (IDBDatabase 0) ''memo'' readwrite,
                call_objectStore (IDBTransaction 1) ''memo'',
                call_put (IDBObjectStore 2) (Defined 7) (Defined 1)],
       engine = [''memo'']\<rparr>) \<and>
   deleteValue_try memory_engine (IDBDatabase 0) ''memo'' Undefined None None (fresh_world [''memo'']) =
     (Inl \<lparr>name = ''DataError'', message = ''raised by the engine''\<rparr>,
      \<lparr>console = [],
       calls = [call_transaction (IDBDatabase 0) ''memo'' readwrite,
                call_objectStore (IDBTransaction 1) ''memo'',
                call_delete (IDBObjectStore 2) Undefined],
       engine = [''memo'']\<rparr>) \<and>
   deleteValue memory_engine (Defined (IDBDatabase 0)) ''memo'' Undefined None None (fresh_world [''memo'']) =
     (None,
      \<lparr>console = [console_log [Str ''uncaught error'',
                     Err \<lparr>name = ''DataError'', message = ''raised by the engine''\<rparr>]],
       calls = [call_transaction (IDBDatabase 0) ''memo'' readwrite,
                call_objectStore (IDBTransaction 1) ''memo'',
                call_delete (IDBObjectStore 2) Undefined],
       engine = [''memo'']\<rparr>) \<and>
   saveValue memory_engine (Defined (IDBDatabase 0)) ''memo'' Undefined (Defined 7) put None
       (Some (write_console (console_log [Str ''told'']))) (fresh_world [''memo'']) =
     (Some \<lparr>target = IDBRequest 7, onsuccess = saveValue_onsuccess None,
            onerror = saveValue_onerror (Some (write_console (console_log [Str ''told''])))\<rparr>,
      \<lparr>console = [],
       calls = [call_transaction (IDBDatabase 0) ''memo'' readwrite,
                call_objectStore (IDBTransaction 1) ''memo'',
                call_put (IDBObjectStore 2) (Defined 7) Undefined],
       engine = [''memo'']\<rparr>) \<and>
   deliver \<lparr>target = IDBRequest 7, onsuccess = saveValue_onsuccess None,
            onerror = saveValue_onerror (Some (write_console (console_log [Str ''told''])))\<rparr>
       (Failure (engine_error ''QuotaExceededError'')) (fresh_world [''memo'']) =
     \<lparr>console = [console_error [Str ''no suffient space to save data''], console_log [Str ''told'']],
      calls = [], engine = [''memo'']\<rparr> \<and>
   deleteValue memory_engine (Defined (IDBDatabase 0)) ''memo'' (Defined 1) None None
       (fresh_world [''memo'']) =
     (Some \<lparr>target = IDBRequest 8, onsuccess = deleteValue_onsuccess None,
            onerror = deleteValue_onerror None\<rparr>,
      \<lparr>console = [],
       calls = [call_transaction (IDBDatabase 0) ''memo'' readwrite,
                call_objectStore (IDBTransaction 1) ''memo'',
                call_delete (IDBObjectStore 2) (Defined 1)],
       engine = [''memo'']\<rparr>) \<and>
   deliver \<lparr>target = IDBRequest 8, onsuccess = deleteValue_onsuccess None,
            onerror = deleteValue_onerror None\<rparr>
       (Failure (engine_error ''UnknownError'')) (fresh_world [''memo'']) = fresh_world [''memo'']"
proof -
  let ?told = "Some (write_console (console_log [Str ''told'']))
                 :: (nat, string list) callback"
  note run = and_then_def ret_def try_catch_def stage_handler_defs handler_invoke engine_call_defs
    invoke_def memory_engine_def fresh_world_def write_console_def engine_error_def
  have h1: "saveValue_try memory_engine (IDBDatabase 0) ''memo'' (Defined 1) (Defined 7) put None
       ?told (fresh_world [''memo'']) =
     (Inl \<lparr>name = ''createError'', message = ''raised by the engine''\<rparr>,
      \<lparr>console = [console_error [Str (''createError'' @ occurred),
                     Err \<lparr>name = ''createError'', message = ''raised by the engine''\<rparr>]],
       calls = [call_transaction (IDBDatabase 0) ''memo'' readwrite,
                call_objectStore (IDBTransaction 1) ''memo'',
                call_put (IDBObjectStore 2) (Defined 7) (Defined 1)],
       engine = [''memo'']\<rparr>)"
    by (simp add: saveValue_try_def run)
  have h2: "deleteValue_try memory_engine (IDBDatabase 0) ''memo'' Undefined None None
       (fresh_world [''memo'']) =
     (Inl \<lparr>name = ''DataError'', message = ''raised by the engine''\<rparr>,
      \<lparr>console = [],
       calls = [call_transaction (IDBDatabase 0) ''memo'' readwrite,
                call_objectStore (IDBTransaction 1) ''memo'',
                call_delete (IDBObjectStore 2) Undefined],
       engine = [''memo'']\<rparr>)"
    by (simp add: deleteValue_try_def run)
  have h3: "saveValue memory_engine (Defined (IDBDatabase 0)) ''memo'' Undefined (Defined 7) put None
       ?told (fresh_world [''memo'']) =
     (Some \<lparr>target = IDBRequest 7, onsuccess = saveValue_onsuccess None,
            onerror = saveValue_onerror ?told\<rparr>,
      \<lparr>console = [],
       calls = [call_transaction (IDBDatabase 0) ''memo'' readwrite,
                call_objectStore (IDBTransaction 1) ''memo'',
                call_put (IDBObjectStore 2) (Defined 7) Undefined],
       engine = [''memo'']\<rparr>)"
    by (simp add: saveValue_def saveValue_try_def run)
  have h4: "deleteValue memory_engine (Defined (IDBDatabase 0)) ''memo'' (Defined 1) None None
       (fresh_world [''memo'']) =
     (Some \<lparr>target = IDBRequest 8, onsuccess = deleteValue_onsuccess None,
            onerror = deleteValue_onerror None\<rparr>,
      \<lparr>console = [],
       calls = [call_transaction (IDBDatabase 0) ''memo'' readwrite,
                call_objectStore (IDBTransaction 1) ''memo'',
                call_delete (IDBObjectStore 2) (Defined 1)],
       engine = [''memo'']\<rparr>)"
    by (simp add: deleteValue_def deleteValue_try_def run)
  note t = write_failures_logged_or_called_back
  have c1: "saveValue memory_engine (Defined (IDBDatabase 0)) ''memo'' (Defined 1) (Defined 7) put None
       ?told (fresh_world [''memo'']) =
     (None,
      \<lparr>console = [console_error [Str (''createError'' @ occurred),
                     Err \<lparr>name = ''createError'', message = ''raised by the engine''\<rparr>],
                  console_log [Str ''uncaught error'',
                     Err \<lparr>name = ''createError'', message = ''raised by the engine''\<rparr>]],
       calls = [call_transaction (IDBDatabase 0) ''memo'' readwrite,
                call_objectStore (IDBTransaction 1) ''memo'',
                call_put (IDBObjectStore 2) (Defined 7) (Defined 1)],
       engine = [''memo'']\<rparr>)"
    using t [THEN conjunct1, THEN mp, OF h1]
    by (simp add: write_console_def)
  have c2: "deleteValue memory_engine (Defined (IDBDatabase 0)) ''memo'' Undefined None None
       (fresh_world [''memo'']) =
     (None,
      \<lparr>console = [console_log [Str ''uncaught error'',
                     Err \<lparr>name = ''DataError'', message = ''raised by the engine''\<rparr>]],
       calls = [call_transaction (IDBDatabase 0) ''memo'' readwrite,
                call_objectStore (IDBTransaction 1) ''memo'',
                call_delete (IDBObjectStore 2) Undefined],
       engine = [''memo'']\<rparr>)"
    using t [THEN conjunct2, THEN conjunct1, THEN mp, OF h2]
    by (simp add: write_console_def)
  have c3: "deliver \<lparr>target = IDBRequest 7, onsuccess = saveValue_onsuccess None,
            onerror = saveValue_onerror ?told\<rparr>
       (Failure (engine_error ''QuotaExceededError'')) (fresh_world [''memo'']) =
     \<lparr>console = [console_error [Str ''no suffient space to save data''], console_log [Str ''told'']],
      calls = [], engine = [''memo'']\<rparr>"
    using t [THEN conjunct2, THEN conjunct2, THEN conjunct1, THEN mp, OF h3,
             of "engine_error ''QuotaExceededError''" "fresh_world [''memo'']"]
    by (simp add: call_if_supplied_def write_console_def fresh_world_def)
  have c4': "deliver \<lparr>target = IDBRequest 8, onsuccess = deleteValue_onsuccess None,
            onerror = deleteValue_onerror None\<rparr>
       (Failure (engine_error ''UnknownError'')) (fresh_world [''memo'']) = fresh_world [''memo'']"
    using t [THEN conjunct2, THEN conjunct2, THEN conjunct2, THEN conjunct1, THEN mp, OF h4,
             of "engine_error ''UnknownError''" "fresh_world [''memo'']"]
    by (simp add: call_if_supplied_def)
  from h1 h2 h3 h4 c1 c2 c3 c4' show ?thesis
    by (simp only: simp_thms)
qed

text \<open>
  The claim as written has a request-level error of \<open>saveValue\<close> pass silently when no
  \<open>onError\<close> is supplied. It does not: the console was empty after the request was issued
  and holds an error line after the request's error notification.
\<close>

theorem saveValue_request_error_not_silent_counterexample:
  "(case saveValue memory_engine (Defined (IDBDatabase 0)) ''memo'' Undefined (Defined 7) add
            None None (fresh_world [''memo'']) of
      (Some l, w') \<Rightarrow>
         console w' = [] \<and>
         console (deliver l (Failure (engine_error ''ConstraintError'')) w') =
           [console_error [Str ''no suffient space to save data'']]
    | (None, w') \<Rightarrow> False)"
  by (simp add: saveValue_def try_catch_def saveValue_try_def and_then_def ret_def
      stage_handler_defs handler_invoke engine_call_defs memory_engine_def fresh_world_def
      saveValue_onerror_def call_if_supplied_def write_console_def)

text \<open>
  C6: whenever \<open>getLastValueFromTable\<close>, given a handle, has opened its cursor, the promise
  is pending; a success notification resolves it with the value at the cursor's position, or
  with \<open>undefined\<close> when there is no position; an error notification rejects it with the
  fixed \<open>Error('Failed to retrieve last value from object store')\<close>. Of several
  notifications only the first counts, and handling them leaves the world they arrive in as
  it is: no engine call is made, so the cursor is not advanced.
\<close>

theorem last_value_from_first_cursor_notification:
  assumes "getLastValueFromTable eng (Defined db) tableName indexing w = ((p, Some l), w')"
  shows "p = Pending \<and>
     deliver l (Success (Some cursor)) (p, x) = (Resolved (cursor_value cursor), x) \<and>
     deliver l (Success None) (p, x) = (Resolved Undefined, x) \<and>
     deliver l (Failure e) (p, x) =
       (Rejected (Plain \<lparr>name = ''Error'',
                         message = ''Failed to retrieve last value from object store''\<rparr>), x) \<and>
     deliver_all l (n # ns) (p, x) = deliver l n (p, x) \<and>
     snd (deliver_all l (n # ns) (p, x)) = x"
proof -
  from getLastValueFromTable_listeners [OF assms]
  have p: "p = Pending" and s: "onsuccess l = getLastValueFromTable_onsuccess"
    and f: "onerror l = getLastValueFromTable_onerror"
    by simp_all
  have first: "\<exists>q. q \<noteq> Pending \<and> deliver l n (p, x) = (q, x)"
    using p s f
    by (cases n)
      (simp_all add: getLastValueFromTable_onsuccess_def getLastValueFromTable_onerror_def
        resolve_def reject_def)
  then obtain q where q: "q \<noteq> Pending" "deliver l n (p, x) = (q, x)"
    by blast
  have rest: "deliver_all l (n # ns) (p, x) = deliver l n (p, x)"
    using q deliver_all_settled [OF q(1) s f] by simp
  have world: "snd (deliver_all l (n # ns) (p, x)) = x"
    using deliver_all_world [OF s f, of "n # ns" "(p, x)"] by simp
  show ?thesis
    using p s f rest world
    by (simp add: getLastValueFromTable_onsuccess_def getLastValueFromTable_onerror_def
        resolve_def reject_def)
qed

theorem last_value_from_first_cursor_notification_witness:
  "getLastValueFromTable memory_engine (Defined (IDBDatabase 0)) ''memo'' ''id'' (fresh_world [''memo'']) =
     ((Pending, Some \<lparr>target = IDBRequest 5, onsuccess = getLastValueFromTable_onsuccess,
                      onerror = getLastValueFromTable_onerror\<rparr>),
      \<lparr>console = [],
       calls = [call_transaction (IDBDatabase 0) ''memo'' readonly,
                call_objectStore (IDBTransaction 1) ''memo'',
                call_index (IDBObjectStore 2) ''id'', call_openCursor (IDBIndex 4) cursor_prev],
       engine = [''memo'']\<rparr>) \<and>
   deliver_all \<lparr>target = IDBRequest 5, onsuccess = getLastValueFromTable_onsuccess,
                onerror = getLastValueFromTable_onerror\<rparr>
       [Success (Some (IDBCursorWithValue (Defined (42::nat)))),
        Failure (engine_error ''AbortError''), Success None]
       (Pending,
        \<lparr>console = [],
         calls = [call_transaction (IDBDatabase 0) ''memo'' readonly,
                  call_objectStore (IDBTransaction 1) ''memo'',
                  call_index (IDBObjectStore 2) ''id'', call_openCursor (IDBIndex 4) cursor_prev],
         engine = [''memo'']\<rparr>) =
     (Resolved (Defined 42),
      \<lparr>console = [],
       calls = [call_transaction (IDBDatabase 0) ''memo'' readonly,
                call_objectStore (IDBTransaction 1) ''memo'',
                call_index (IDBObjectStore 2) ''id'', call_openCursor (IDBIndex 4) cursor_prev],
       engine = [''memo'']\<rparr>)"
proof -
  have h: "getLastValueFromTable memory_engine (Defined (IDBDatabase 0)) ''memo'' ''id''
       (fresh_world [''memo'']) =
     ((Pending, Some \<lparr>target = IDBRequest 5, onsuccess = getLastValueFromTable_onsuccess,
                      onerror = getLastValueFromTable_onerror\<rparr>),
      \<lparr>console = [],
       calls = [call_transaction (IDBDatabase 0) ''memo'' readonly,
                call_objectStore (IDBTransaction 1) ''memo'',
                call_index (IDBObjectStore 2) ''id'', call_openCursor (IDBIndex 4) cursor_prev],
       engine = [''memo'']\<rparr>)"
    by (simp add: getLastValueFromTable_def getLastValueFromTable_try_def try_catch_def and_then_def
        ret_def stage_handler_defs errorHandlerGenerator_cases engine_call_defs invoke_def
        memory_engine_def fresh_world_def)
  let ?l = "\<lparr>target = IDBRequest 5, onsuccess = getLastValueFromTable_onsuccess,
               onerror = getLastValueFromTable_onerror\<rparr>
             :: (nat IDBCursorWithValue option, nat promise \<times> (nat, string list) world) listeners"
  let ?w = "\<lparr>console = [],
       calls = [call_transaction (IDBDatabase 0) ''memo'' readonly,
                call_objectStore (IDBTransaction 1) ''memo'',
                call_index (IDBObjectStore 2) ''id'', call_openCursor (IDBIndex 4) cursor_prev],
       engine = [''memo'']\<rparr> :: (nat, string list) world"
  note t = last_value_from_first_cursor_notification
         [OF h, where cursor = "IDBCursorWithValue (Defined 42)"
            and n = "Success (Some (IDBCursorWithValue (Defined 42)))"
            and ns = "[Failure (engine_error ''AbortError''), Success None]" and x = "?w"]
  have a: "deliver_all ?l [Success (Some (IDBCursorWithValue (Defined 42))),
              Failure (engine_error ''AbortError''), Success None] (Pending, ?w) =
           deliver ?l (Success (Some (IDBCursorWithValue (Defined 42)))) (Pending, ?w)"
    using t by blast
  have b: "deliver ?l (Success (Some (IDBCursorWithValue (Defined 42)))) (Pending, ?w) =
           (Resolved (cursor_value (IDBCursorWithValue (Defined 42))), ?w)"
    using t by blast
  have c: "deliver_all ?l [Success (Some (IDBCursorWithValue (Defined 42))),
              Failure (engine_error ''AbortError''), Success None] (Pending, ?w) =
           (Resolved (Defined 42), ?w)"
    by (simp only: a b IDBCursorWithValue.sel)
  from h c show ?thesis
    by (rule conjI)
qed

text \<open>
  C7: given a handle, \<open>saveValue\<close> calls \<open>add\<close> only when the declared type is \<open>add\<close> and
  \<open>put\<close> only otherwise; once the transaction and the table are acquired it issues exactly
  that request. If issuing it throws, the record-create handler reports \<open>createError\<close> and
  the error is caught and logged. If it returns, nothing is written and the request's
  handlers are assigned; they settle the request outside the stage handler: on success a log
  line and \<open>onSuccess\<close>, on error an error line and \<open>onError\<close>, no \<open>createError\<close> report.
\<close>

theorem saveValue_request_kind_and_wrapping:
  "(\<exists>new. calls (snd (saveValue eng (Defined db) tableName key val type onSuccess onError w)) =
            calls w @ new \<and>
      (\<forall>t v k. call_add t v k \<in> set new \<longrightarrow> type = add) \<and>
      (\<forall>t v k. call_put t v k \<in> set new \<longrightarrow> type \<noteq> add)) \<and>
   (IDBDatabase_transaction eng db tableName readwrite (engine w) = (Inr transaction, s1) \<and>
    IDBTransaction_objectStore eng transaction tableName s1 = (Inr table, s2) \<longrightarrow>
      ((if type = add then IDBObjectStore_add eng table val key s2
        else IDBObjectStore_put eng table val key s2) = (Inl E, s3) \<longrightarrow>
       saveValue eng (Defined db) tableName key val type onSuccess onError w =
         (None,
          w\<lparr>console := console w @
               [console_error [Str (''createError'' @ occurred), Err (E\<lparr>name := ''createError''\<rparr>)],
                console_log [Str ''uncaught error'', Err (E\<lparr>name := ''createError''\<rparr>)]],
            calls := calls w @
               [call_transaction db tableName readwrite, call_objectStore transaction tableName,
                if type = add then call_add table val key else call_put table val key],
            engine := s3\<rparr>)) \<and>
      ((if type = add then IDBObjectStore_add eng table val key s2
        else IDBObjectStore_put eng table val key s2) = (Inr request, s4) \<longrightarrow>
       saveValue eng (Defined db) tableName key val type onSuccess onError w =
         (Some \<lparr>target = request, onsuccess = saveValue_onsuccess onSuccess,
                onerror = saveValue_onerror onError\<rparr>,
          w\<lparr>calls := calls w @
               [call_transaction db tableName readwrite, call_objectStore transaction tableName,
                if type = add then call_add table val key else call_put table val key],
            engine := s4\<rparr>))) \<and>
   saveValue_onsuccess onSuccess r x =
     call_if_supplied onSuccess (write_console (console_log [Str ''save success'']) x) \<and>
   saveValue_onerror onError e x =
     call_if_supplied onError
       (write_console (console_error [Str ''no suffient space to save data'']) x)"
proof -
  have kind: "\<exists>new. calls (snd (saveValue eng (Defined db) tableName key val type onSuccess onError w)) =
            calls w @ new \<and>
      (\<forall>t v k. call_add t v k \<in> set new \<longrightarrow> type = add) \<and>
      (\<forall>t v k. call_put t v k \<in> set new \<longrightarrow> type \<noteq> add)"
    by (rule saveValue_only_declared_kind)
  have wrapped: "IDBDatabase_transaction eng db tableName readwrite (engine w) = (Inr transaction, s1) \<and>
    IDBTransaction_objectStore eng transaction tableName s1 = (Inr table, s2) \<longrightarrow>
      ((if type = add then IDBObjectStore_add eng table val key s2
        else IDBObjectStore_put eng table val key s2) = (Inl E, s3) \<longrightarrow>
       saveValue eng (Defined db) tableName key val type onSuccess onError w =
         (None,
          w\<lparr>console := console w @
               [console_error [Str (''createError'' @ occurred), Err (E\<lparr>name := ''createError''\<rparr>)],
                console_log [Str ''uncaught error'', Err (E\<lparr>name := ''createError''\<rparr>)]],
            calls := calls w @
               [call_transaction db tableName readwrite, call_objectStore transaction tableName,
                if type = add then call_add table val key else call_put table val key],
            engine := s3\<rparr>)) \<and>
      ((if type = add then IDBObjectStore_add eng table val key s2
        else IDBObjectStore_put eng table val key s2) = (Inr request, s4) \<longrightarrow>
       saveValue eng (Defined db) tableName key val type onSuccess onError w =
         (Some \<lparr>target = request, onsuccess = saveValue_onsuccess onSuccess,
                onerror = saveValue_onerror onError\<rparr>,
          w\<lparr>calls := calls w @
               [call_transaction db tableName readwrite, call_objectStore transaction tableName,
                if type = add then call_add table val key else call_put table val key],
            engine := s4\<rparr>))"
    using saveValue_request_throws [of eng db tableName w transaction s1 table s2 type val key E s3
        onSuccess onError]
      saveValue_request_issued [of eng db tableName w transaction s1 table s2 type val key request s4
        onSuccess onError]
    by blast
  have settle: "saveValue_onsuccess onSuccess r x =
       call_if_supplied onSuccess (write_console (console_log [Str ''save success'']) x) \<and>
     saveValue_onerror onError e x =
       call_if_supplied onError
         (write_console (console_error [Str ''no suffient space to save data'']) x)"
    by (simp add: saveValue_onsuccess_def saveValue_onerror_def)
  show ?thesis
    by (rule conjI [OF kind conjI [OF wrapped settle]])
qed

theorem saveValue_request_kind_and_wrapping_witness:
  "IDBDatabase_transaction memory_engine (IDBDatabase 0) ''memo'' readwrite
       (engine (fresh_world [''memo''])) = (Inr (IDBTransaction 1), [''memo'']) \<and>
   IDBTransaction_objectStore memory_engine (IDBTransaction 1) ''memo'' [''memo''] =
     (Inr (IDBObjectStore 2), [''memo'']) \<and>
   IDBObjectStore_put memory_engine (IDBObjectStore 2) (Defined (7::nat)) (Defined 1) [''memo''] =
     (Inl (engine_error ''DataError''), [''memo'']) \<and>
   saveValue memory_engine (Defined (IDBDatabase 0)) ''memo'' (Defined 1) (Defined 7) put None None
       (fresh_world [''memo'']) =
     (None,
      \<lparr>console = [console_error [Str (''createError'' @ occurred),
                     Err \<lparr>name = ''createError'', message = ''raised by the engine''\<rparr>],
                  console_log [Str ''uncaught error'',
                     Err \<lparr>name = ''createError'', message = ''raised by the engine''\<rparr>]],
       calls = [call_transaction (IDBDatabase 0) ''memo'' readwrite,
                call_objectStore (IDBTransaction 1) ''memo'',
                call_put (IDBObjectStore 2) (Defined 7) (Defined 1)],
       engine = [''memo'']\<rparr>) \<and>
   IDBObjectStore_add memory_engine (IDBObjectStore 2) (Defined (7::nat)) Undefined [''memo''] =
     (Inr (IDBRequest 6), [''memo'']) \<and>
   saveValue memory_engine (Defined (IDBDatabase 0)) ''memo'' Undefined (Defined 7) add None None
       (fresh_world [''memo'']) =
     (Some \<lparr>target = IDBRequest 6, onsuccess = saveValue_onsuccess None,
            onerror = saveValue_onerror None\<rparr>,
      \<lparr>console = [],
       calls = [call_transaction (IDBDatabase 0) ''memo'' readwrite,
                call_objectStore (IDBTransaction 1) ''memo'',
                call_add (IDBObjectStore 2) (Defined 7) Undefined],
       engine = [''memo'']\<rparr>)"
proof -
  have tx: "IDBDatabase_transaction memory_engine (IDBDatabase 0) ''memo'' readwrite
       (engine (fresh_world [''memo''])) = (Inr (IDBTransaction 1), [''memo''])"
    by (simp add: memory_engine_def fresh_world_def)
  have os: "IDBTransaction_objectStore memory_engine (IDBTransaction 1) ''memo'' [''memo''] =
     (Inr (IDBObjectStore 2), [''memo''])"
    by (simp add: memory_engine_def)
  have pt: "(if put = add
             then IDBObjectStore_add memory_engine (IDBObjectStore 2) (Defined (7::nat)) (Defined 1) [''memo'']
             else IDBObjectStore_put memory_engine (IDBObjectStore 2) (Defined 7) (Defined 1) [''memo'']) =
     (Inl (engine_error ''DataError''), [''memo''])"
    by (simp add: memory_engine_def)
  have ad: "(if add = add
             then IDBObjectStore_add memory_engine (IDBObjectStore 2) (Defined (7::nat)) Undefined [''memo'']
             else IDBObjectStore_put memory_engine (IDBObjectStore 2) (Defined 7) Undefined [''memo'']) =
     (Inr (IDBRequest 6), [''memo''])"
    by (simp add: memory_engine_def)
  note t = saveValue_request_kind_and_wrapping [THEN conjunct2, THEN conjunct1, THEN mp,
      OF conjI [OF tx os]]
  have c1: "saveValue memory_engine (Defined (IDBDatabase 0)) ''memo'' (Defined 1) (Defined 7) put None None
       (fresh_world [''memo'']) =
     (None,
      \<lparr>console = [console_error [Str (''createError'' @ occurred),
                     Err \<lparr>name = ''createError'', message = ''raised by the engine''\<rparr>],
                  console_log [Str ''uncaught error'',
                     Err \<lparr>name = ''createError'', message = ''raised by the engine''\<rparr>]],
       calls = [call_transaction (IDBDatabase 0) ''memo'' readwrite,
                call_objectStore (IDBTransaction 1) ''memo'',
                call_put (IDBObjectStore 2) (Defined 7) (Defined 1)],
       engine = [''memo'']\<rparr>)"
    using t [THEN conjunct1, THEN mp, OF pt, of None None]
    by (simp add: fresh_world_def engine_error_def)
  have c2: "saveValue memory_engine (Defined (IDBDatabase 0)) ''memo'' Undefined (Defined 7) add None None
       (fresh_world [''memo'']) =
     (Some \<lparr>target = IDBRequest 6, onsuccess = saveValue_onsuccess None,
            onerror = saveValue_onerror None\<rparr>,
      \<lparr>console = [],
       calls = [call_transaction (IDBDatabase 0) ''memo'' readwrite,
                call_objectStore (IDBTransaction 1) ''memo'',
                call_add (IDBObjectStore 2) (Defined 7) Undefined],
       engine = [''memo'']\<rparr>)"
    using t [THEN conjunct2, THEN mp, OF ad, of None None]
    by (simp add: fresh_world_def)
  from pt have pt': "IDBObjectStore_put memory_engine (IDBObjectStore 2) (Defined (7::nat)) (Defined 1)
        [''memo''] = (Inl (engine_error ''DataError''), [''memo''])"
    by simp
  from ad have ad': "IDBObjectStore_add memory_engine (IDBObjectStore 2) (Defined (7::nat)) Undefined
        [''memo''] = (Inr (IDBRequest 6), [''memo''])"
    by simp
  show ?thesis
    by (rule conjI [OF tx conjI [OF os conjI [OF pt' conjI [OF c1 conjI [OF ad' c2]]]]])
qed

text \<open>
  C8: when the table name is already listed on the handle \<open>createTable\<close> works on, the call
  only asks \<open>objectStoreNames.contains\<close>: it creates no store and no index, leaves the
  engine's state as it is, and returns \<open>undefined\<close> without throwing. On an engine that lists
  the stores it has created, a second call after one that returned is of that kind, so a table
  is created at most once per name.
\<close>

theorem createTable_idempotent:
  "((case db_arg of Undefined \<Rightarrow> database | _ \<Rightarrow> db_arg) = Defined h \<and>
    objectStoreNames_contains eng h tableName (engine w) \<longrightarrow>
      createTable eng indexing_memo database tableName db_arg w =
        (Inr None, w\<lparr>calls := calls w @ [call_contains h tableName]\<rparr>)) \<and>
   (schema_contract eng \<and>
    (case db_arg of Undefined \<Rightarrow> database | _ \<Rightarrow> db_arg) = Defined h \<and>
    createTable eng indexing_memo database tableName db_arg w = (Inr r, w1) \<longrightarrow>
      createTable eng indexing_memo database tableName db_arg w1 =
        (Inr None, w1\<lparr>calls := calls w1 @ [call_contains h tableName]\<rparr>))"
proof (intro conjI impI)
  assume "(case db_arg of Undefined \<Rightarrow> database | _ \<Rightarrow> db_arg) = Defined h \<and>
    objectStoreNames_contains eng h tableName (engine w)"
  then show "createTable eng indexing_memo database tableName db_arg w =
        (Inr None, w\<lparr>calls := calls w @ [call_contains h tableName]\<rparr>)"
    by (simp add: createTable_existing)
next
  assume a: "schema_contract eng \<and>
    (case db_arg of Undefined \<Rightarrow> database | _ \<Rightarrow> db_arg) = Defined h \<and>
    createTable eng indexing_memo database tableName db_arg w = (Inr r, w1)"
  then have "objectStoreNames_contains eng h tableName (engine w1)"
    using createTable_leaves_table by blast
  with a show "createTable eng indexing_memo database tableName db_arg w1 =
        (Inr None, w1\<lparr>calls := calls w1 @ [call_contains h tableName]\<rparr>)"
    by (simp add: createTable_existing)
qed

theorem createTable_idempotent_witness:
  "objectStoreNames_contains memory_engine (IDBDatabase 0) ''memo'' (engine (fresh_world [''memo''])) \<and>
   createTable memory_engine ''id'' (Defined (IDBDatabase 0)) ''memo'' Undefined (fresh_world [''memo'']) =
     (Inr None,
      \<lparr>console = [], calls = [call_contains (IDBDatabase 0) ''memo''], engine = [''memo'']\<rparr>) \<and>
   schema_contract memory_engine \<and>
   createTable memory_engine ''id'' (Defined (IDBDatabase 0)) ''memo'' Undefined (fresh_world []) =
     (Inr (Some (IDBObjectStore 2)),
      \<lparr>console = [],
       calls = [call_contains (IDBDatabase 0) ''memo'',
                call_createObjectStore (IDBDatabase 0) ''memo'' ''id'',
                call_createIndex (IDBObjectStore 2) ''id'' ''id'' True],
       engine = [''memo'']\<rparr>) \<and>
   createTable memory_engine ''id'' (Defined (IDBDatabase 0)) ''memo'' Undefined
       \<lparr>console = [],
        calls = [call_contains (IDBDatabase 0) ''memo'',
                 call_createObjectStore (IDBDatabase 0) ''memo'' ''id'',
                 call_createIndex (IDBObjectStore 2) ''id'' ''id'' True],
        engine = [''memo'']\<rparr> =
     (Inr None,
      \<lparr>console = [],
       calls = [call_contains (IDBDatabase 0) ''memo'',
                call_createObjectStore (IDBDatabase 0) ''memo'' ''id'',
                call_createIndex (IDBObjectStore 2) ''id'' ''id'' True,
                call_contains (IDBDatabase 0) ''memo''],
       engine = [''memo'']\<rparr>)"
proof -
  have eff: "(case Undefined of Undefined \<Rightarrow> Defined (IDBDatabase 0) | _ \<Rightarrow> Undefined) =
      Defined (IDBDatabase 0)"
    by simp
  have present: "objectStoreNames_contains memory_engine (IDBDatabase 0) ''memo''
      (engine (fresh_world [''memo'']))"
    by (simp add: memory_engine_def fresh_world_def)
  have first: "createTable memory_engine ''id'' (Defined (IDBDatabase 0)) ''memo'' Undefined (fresh_world []) =
     (Inr (Some (IDBObjectStore 2)),
      \<lparr>console = [],
       calls = [call_contains (IDBDatabase 0) ''memo'',
                call_createObjectStore (IDBDatabase 0) ''memo'' ''id'',
                call_createIndex (IDBObjectStore 2) ''id'' ''id'' True],
       engine = [''memo'']\<rparr>)"
    by (simp add: createTable_def and_then_def ret_def engine_call_defs invoke_def
        memory_engine_def fresh_world_def)
  have c1: "createTable memory_engine ''id'' (Defined (IDBDatabase 0)) ''memo'' Undefined (fresh_world [''memo'']) =
     (Inr None,
      \<lparr>console = [], calls = [call_contains (IDBDatabase 0) ''memo''], engine = [''memo'']\<rparr>)"
    using createTable_idempotent [THEN conjunct1, THEN mp, OF conjI [OF eff present], of "''id''"]
    by (simp add: fresh_world_def)
  have c2: "createTable memory_engine ''id'' (Defined (IDBDatabase 0)) ''memo'' Undefined
       \<lparr>console = [],
        calls = [call_contains (IDBDatabase 0) ''memo'',
                 call_createObjectStore (IDBDatabase 0) ''memo'' ''id'',
                 call_createIndex (IDBObjectStore 2) ''id'' ''id'' True],
        engine = [''memo'']\<rparr> =
     (Inr None,
      \<lparr>console = [],
       calls = [call_contains (IDBDatabase 0) ''memo'',
                call_createObjectStore (IDBDatabase 0) ''memo'' ''id'',
                call_createIndex (IDBObjectStore 2) ''id'' ''id'' True,
                call_contains (IDBDatabase 0) ''memo''],
       engine = [''memo'']\<rparr>)"
    using createTable_idempotent [THEN conjunct2, THEN mp,
        OF conjI [OF memory_engine_schema_contract conjI [OF eff first]]]
    by simp
  show ?thesis
    by (rule conjI [OF present conjI [OF c1 conjI [OF memory_engine_schema_contract conjI [OF first c2]]]])
qed

text \<open>
  C9: for each of the five stage handlers, when the action returns a value the handler
  returns that value and leaves the world exactly as the action left it, so it writes no
  diagnostic of its own.
\<close>

theorem stage_handler_identity_on_success:
  assumes "(handler, stage) \<in> stage_handlers" and "action w = (Inr v, w')"
  shows "handler action w = (Inr v, w')"
proof -
  from assms(1) have "handler = errorHandlerGenerator stage"
    by (auto simp: stage_handlers_def handleTransactionErr_def handleObjectStoreErr_def
        handleCreateErr_def handleIndexErr_def handleOpenCursorErr_def)
  with errorHandlerGenerator_return [where action = action and w = w and n = stage, OF assms(2)]
  show ?thesis by simp
qed

theorem stage_handler_identity_on_success_witness:
  "(handleCreateErr :: (IDBRequest, nat, string list) computation \<Rightarrow> _, createError)
     \<in> stage_handlers \<and>
   table_put memory_engine (IDBObjectStore 2) (Defined 7) Undefined (fresh_world [''memo'']) =
     (Inr (IDBRequest 7),
      \<lparr>console = [], calls = [call_put (IDBObjectStore 2) (Defined 7) Undefined],
       engine = [''memo'']\<rparr>) \<and>
   handleCreateErr (table_put memory_engine (IDBObjectStore 2) (Defined 7) Undefined)
       (fresh_world [''memo'']) =
     (Inr (IDBRequest 7),
      \<lparr>console = [], calls = [call_put (IDBObjectStore 2) (Defined 7) Undefined],
       engine = [''memo'']\<rparr>)"
proof -
  have m: "(handleCreateErr, createError) \<in>
      (stage_handlers :: ((((IDBRequest, nat, string list) computation) \<Rightarrow> _) \<times> _) set)"
    by (simp add: stage_handlers_def)
  have a: "table_put memory_engine (IDBObjectStore 2) (Defined 7) Undefined (fresh_world [''memo'']) =
     (Inr (IDBRequest 7),
      \<lparr>console = [], calls = [call_put (IDBObjectStore 2) (Defined 7) Undefined],
       engine = [''memo'']\<rparr>)"
    by (simp add: table_put_def invoke_def memory_engine_def fresh_world_def)
  from stage_handler_identity_on_success
         [where handler = handleCreateErr and stage = createError
            and action = "table_put memory_engine (IDBObjectStore 2) (Defined 7) Undefined"
            and w = "fresh_world [''memo'']", OF m a] m a
  show ?thesis
    by simp
qed

text \<open>
  C10: two calls of \<open>getValue\<close> that differ only in \<open>indexing\<close> make the same engine calls,
  write the same console lines and yield the same promise and handlers.
\<close>

theorem getValue_ignores_indexing:
  "getValue eng database tableName indexing key w = getValue eng database tableName indexing' key w"
  by (simp add: getValue_def)

end
